theory Spec2Isabelle
  imports Main "HOL-Library.Sublist"
begin

section \<open>String primitives of the platform\<close>

text \<open>
  Strings are lists of 8-bit characters, read as the code units 0..255 of a JavaScript
  string.  The helpers below are the built-in string operations the source calls.
\<close>

definition LF :: char where "LF = CHR 0x0A"

definition CR :: char where "CR = CHR 0x0D"

definition startsWith :: "string \<Rightarrow> string \<Rightarrow> bool" where
  \<comment> \<open>\<open>s.startsWith(p)\<close>\<close>
  "startsWith s p = prefix p s"

fun split :: "char \<Rightarrow> string \<Rightarrow> string list" where
  \<comment> \<open>\<open>s.split(c)\<close> for a one-character separator: never empty, one more piece than separators\<close>
  "split c [] = [[]]"
| "split c (x # xs) =
     (if x = c then [] # split c xs
      else (let r = split c xs in (x # hd r) # tl r))"

fun join :: "string \<Rightarrow> string list \<Rightarrow> string" where
  \<comment> \<open>\<open>xs.join(sep)\<close>\<close>
  "join sep [] = []"
| "join sep [x] = x"
| "join sep (x # y # ys) = x @ sep @ join sep (y # ys)"

definition isWhiteSpace :: "char \<Rightarrow> bool" where
  \<comment> \<open>the white space and line terminators that \<open>trim\<close> removes, within code units 0..255\<close>
  "isWhiteSpace c = (c \<in> {CHR 0x09, CHR 0x0A, CHR 0x0B, CHR 0x0C, CHR 0x0D, CHR 0x20, CHR 0xA0})"

definition trimStart :: "string \<Rightarrow> string" where
  "trimStart s = dropWhile isWhiteSpace s"

definition trimEnd :: "string \<Rightarrow> string" where
  "trimEnd s = rev (dropWhile isWhiteSpace (rev s))"

definition trim :: "string \<Rightarrow> string" where
  \<comment> \<open>\<open>s.trim()\<close>\<close>
  "trim s = trimEnd (trimStart s)"

fun replaceFirst :: "string \<Rightarrow> string \<Rightarrow> string \<Rightarrow> string" where
  \<comment> \<open>\<open>s.replace(pat, rep)\<close> for a literal pattern: the first occurrence only\<close>
  "replaceFirst pat rep [] = (if pat = [] then rep else [])"
| "replaceFirst pat rep (c # cs) =
     (if prefix pat (c # cs) then rep @ drop (length pat) (c # cs)
      else c # replaceFirst pat rep cs)"

definition boolText :: "bool \<Rightarrow> string" where
  \<comment> \<open>a boolean inside a template literal\<close>
  "boolText b = (if b then ''true'' else ''false'')"

definition optText :: "string option \<Rightarrow> string" where
  \<comment> \<open>an optional string inside a template literal: \<open>undefined\<close> prints as the word\<close>
  "optText v = (case v of None \<Rightarrow> ''undefined'' | Some s \<Rightarrow> s)"

definition truthyStr :: "string option \<Rightarrow> bool" where
  \<comment> \<open>truthiness of an optional string: \<open>undefined\<close> and the empty string are falsy\<close>
  "truthyStr v = (case v of None \<Rightarrow> False | Some s \<Rightarrow> s \<noteq> [])"

section \<open>The node model\<close>

datatype NodeTypeEnum = HTTPS | Shadowsocks | Shadowsocksr | Snell | Vmess

record SurgeConfig =
  shadowsocksFormat :: "string option"
  v2ray :: "string option"

text \<open>
  A node is a JavaScript object; the record lists every property the serializers read.
  A property that the variant of a node does not have is simply not read.  An optional
  property is \<open>None\<close> when reading it gives \<open>undefined\<close>.  An object can also have an
  optional property as an own property whose value is \<open>undefined\<close>; only
  \<open>hasOwnProperty\<close> tells that from an absent one, and \<open>presentUndefined\<close> lists the keys
  in that state.  The port is \<open>number|string\<close> in the source and is kept as its decimal
  text.
\<close>

record NodeConfig =
  type :: NodeTypeEnum
  nodeName :: string
  enable :: "bool option"
  hostname :: string
  port :: string
  tfo :: "bool option"
  mptcp :: "bool option"
  surgeConfig :: "SurgeConfig option"
  binPath :: "string option"
  localPort :: "string option"
  hostnameIp :: "string list option"
  method' :: string    \<comment> \<open>the property \<open>method\<close>\<close>
  password :: string
  obfs :: "string option"
  obfs_host :: "string option"
  obfs_uri :: "string option"
  udp_relay :: "bool option"
  skipCertVerify :: "bool option"
  tls13 :: "bool option"
  protocol :: string
  protoparam :: string
  obfsparam :: string
  uuid :: string
  alterId :: string
  network :: string
  host :: string
  path :: string
  tls :: bool
  udp :: "bool option"
  username :: string
  psk :: string
  presentUndefined :: "string list"

definition blankNode :: NodeConfig where
  \<comment> \<open>a node with every optional property absent; the examples below are updates of it\<close>
  "blankNode = \<lparr> type = Shadowsocks, nodeName = [], enable = None, hostname = [], port = [],
     tfo = None, mptcp = None, surgeConfig = None, binPath = None, localPort = None,
     hostnameIp = None, method' = [], password = [], obfs = None, obfs_host = None,
     obfs_uri = None, udp_relay = None, skipCertVerify = None, tls13 = None, protocol = [],
     protoparam = [], obfsparam = [], uuid = [], alterId = [], network = [], host = [],
     path = [], tls = False, udp = None, username = [], psk = [], presentUndefined = [] \<rparr>"

section \<open>Filters\<close>

text \<open>
  The run-time values the \<open>filter\<close> argument can take: omitted, \<open>null\<close>, a function
  (a predicate on one node), an object exposing a \<open>filter\<close> function on a node sequence,
  or any other value, of which only the truthiness matters.
\<close>

datatype NodeFilter =
    FUndefined
  | FNull
  | FPredicate "NodeConfig \<Rightarrow> bool"
  | FComposite "NodeConfig list \<Rightarrow> NodeConfig list"
  | FOtherValue bool

fun truthyFilter :: "NodeFilter \<Rightarrow> bool" where
  "truthyFilter FUndefined = False"
| "truthyFilter FNull = False"
| "truthyFilter (FPredicate p) = True"
| "truthyFilter (FComposite g) = True"
| "truthyFilter (FOtherValue b) = b"

text \<open>
  Modelled from the spec: \<open>validateFilter\<close> lives in \<open>./filter\<close>, which is not among the
  sources.  The spec calls a filter invalid when it is "neither a function nor an object
  exposing \<open>filter\<close>".
\<close>

fun validateFilter :: "NodeFilter \<Rightarrow> bool" where
  "validateFilter (FPredicate p) = True"
| "validateFilter (FComposite g) = True"
| "validateFilter _ = False"

datatype error =
    InvalidFilter                 \<comment> \<open>the \<open>Error\<close> thrown by \<open>applyFilter\<close>\<close>
  | MissingBinPath NodeTypeEnum   \<comment> \<open>"You must specify a binary file path ..."\<close>
  | InvalidSubscription           \<comment> \<open>the \<open>Error\<close> thrown on a wrong version field\<close>
  | SyntaxError                   \<comment> \<open>thrown by \<open>JSON.parse\<close>\<close>
  | URIError                      \<comment> \<open>thrown by \<open>decodeURIComponent\<close>\<close>
  | TypeError                     \<comment> \<open>a property read on \<open>null\<close> or \<open>undefined\<close>\<close>

definition enabled :: "NodeConfig \<Rightarrow> bool" where
  \<comment> \<open>\<open>item.enable !== false\<close>\<close>
  "enabled item = (enable item \<noteq> Some False)"

definition applyFilter :: "NodeConfig list \<Rightarrow> NodeFilter \<Rightarrow> error + NodeConfig list" where
  "applyFilter nodeList flt =
     (if truthyFilter flt \<and> \<not> validateFilter flt then Inl InvalidFilter
      else
        (let nodes = filter (\<lambda>item.
                let result = enabled item
                in (case flt of FPredicate p \<Rightarrow> p item \<and> result | _ \<Rightarrow> result)) nodeList
         in Inr (case flt of FComposite g \<Rightarrow> g nodes | _ \<Rightarrow> nodes)))"

section \<open>Proxy groups\<close>

text \<open>
  The \<open>options\<close> argument of \<open>generateClashProxyGroup\<close>.  An array is always truthy,
  so \<open>existingProxies\<close> is either absent or a list.
\<close>

record ProxyGroupOptions =
  filterOpt :: NodeFilter    \<comment> \<open>the property \<open>filter\<close>\<close>
  existingProxies :: "string list option"
  proxyTestUrl :: "string option"
  proxyTestInterval :: "nat option"

text \<open>
  The returned object: \<open>type\<close>, \<open>name\<close>, \<open>proxies\<close> and, when the spread at the end
  adds them, the keys \<open>url\<close> and \<open>interval\<close> (\<open>healthCheck\<close> is \<open>None\<close> when the keys are
  not added; a key can be present with the value \<open>undefined\<close>).
\<close>

record ClashProxyGroup =
  pg_type :: string
  pg_name :: string
  proxies :: "string list"
  healthCheck :: "(string option \<times> nat option) option"

definition nodeNames :: "NodeConfig list \<Rightarrow> string list" where
  \<comment> \<open>\<open>nodes.map(item => item.nodeName)\<close>\<close>
  "nodeNames nodes = map nodeName nodes"

definition generateClashProxyGroup ::
  "string \<Rightarrow> nat \<Rightarrow> string \<Rightarrow> string \<Rightarrow> NodeConfig list \<Rightarrow> ProxyGroupOptions option
     \<Rightarrow> error + ClashProxyGroup" where
  \<comment> \<open>The first two parameters are the constants \<open>PROXY_TEST_URL\<close> and
      \<open>PROXY_TEST_INTERVAL\<close> of \<open>./constant\<close>; they are the default of \<open>options\<close>.\<close>
  "generateClashProxyGroup PROXY_TEST_URL PROXY_TEST_INTERVAL ruleName ruleType nodeNameList optionsArg =
     (let options = (case optionsArg of
                       None \<Rightarrow> \<lparr> filterOpt = FUndefined, existingProxies = None,
                                 proxyTestUrl = Some PROXY_TEST_URL,
                                 proxyTestInterval = Some PROXY_TEST_INTERVAL \<rparr>
                     | Some opts \<Rightarrow> opts);
          members =
            (case existingProxies options of
               Some existing \<Rightarrow>
                 (if truthyFilter (filterOpt options)
                  then (case applyFilter nodeNameList (filterOpt options) of
                          Inl e \<Rightarrow> Inl e
                        | Inr nodes \<Rightarrow> Inr (existing @ nodeNames nodes))
                  else Inr existing)
             | None \<Rightarrow>
                 (case applyFilter nodeNameList (filterOpt options) of
                    Inl e \<Rightarrow> Inl e
                  | Inr nodes \<Rightarrow> Inr (nodeNames nodes)))
      in case members of
           Inl e \<Rightarrow> Inl e
         | Inr ps \<Rightarrow>
             Inr \<lparr> pg_type = ruleType, pg_name = ruleName, proxies = ps,
                   healthCheck =
                     (if ruleType \<in> set [''url-test'', ''fallback'', ''load-balance'']
                      then Some (proxyTestUrl options, proxyTestInterval options)
                      else None) \<rparr>)"

section \<open>The rule-line filter for Clash\<close>

definition isLineTerminator :: "char \<Rightarrow> bool" where
  \<comment> \<open>the characters that \<open>.\<close> of a regular expression does not match, within 0..255\<close>
  "isLineTerminator c = (c = LF \<or> c = CR)"

fun stripSlashComment :: "string \<Rightarrow> string" where
  \<comment> \<open>\<open>s.replace(/\/\/.*$/, '')\<close>: the leftmost \<open>//\<close> from which no line terminator
      follows up to the end of the string is cut off with everything after it\<close>
  "stripSlashComment [] = []"
| "stripSlashComment (c # cs) =
     (if prefix ''//'' (c # cs) \<and> \<not> list_ex isLineTerminator cs then []
      else c # stripSlashComment cs)"

definition clashKeep :: "(string \<Rightarrow> string) \<Rightarrow> string list \<Rightarrow> string \<Rightarrow> bool" where
  \<comment> \<open>The callback of \<open>filter\<close> in \<open>clashFilter\<close>.  \<open>toUpperCase\<close> is the built-in of the
      platform and \<open>CLASH_UNSUPPORTED_RULE\<close> the constant of \<open>./utils/constant\<close>.\<close>
  "clashKeep toUpperCase CLASH_UNSUPPORTED_RULE item =
     (let testString = (if item \<noteq> [] \<and> trim item \<noteq> [] then toUpperCase item else [])
      in list_all (\<lambda>s. \<not> startsWith testString s) CLASH_UNSUPPORTED_RULE)"

definition clashLine :: "string \<Rightarrow> string" where
  \<comment> \<open>the callback of \<open>map\<close> in \<open>clashFilter\<close>\<close>
  "clashLine item =
     (if startsWith item ''#'' \<or> trim item = [] then item
      else trim (stripSlashComment (replaceFirst '',no-resolve'' [] (''- '' @ item))))"

definition clashFilter :: "(string \<Rightarrow> string) \<Rightarrow> string list \<Rightarrow> string \<Rightarrow> string" where
  "clashFilter toUpperCase CLASH_UNSUPPORTED_RULE str =
     (let array = split LF str
      in join [LF] (map clashLine (filter (clashKeep toUpperCase CLASH_UNSUPPORTED_RULE) array)))"

definition asciiUpper :: "string \<Rightarrow> string" where
  \<comment> \<open>\<open>toUpperCase\<close> on ASCII text, used in the examples\<close>
  "asciiUpper s =
     map (\<lambda>c. let n = (of_char c :: nat)
              in if 97 \<le> n \<and> n \<le> 122 then char_of (n - 32) else c) s"

section \<open>JavaScript values\<close>

text \<open>
  The values that JSON text and object literals hold.  An object is its list of
  properties in order; numbers are kept as integers, of which the decoders observe only
  whether they are zero and whether they equal 2.
\<close>

datatype jsval =
    JUndefined
  | JNull
  | JBool bool
  | JNum int
  | JStr string
  | JEnum NodeTypeEnum
  | JArr "jsval list"
  | JObj "(string \<times> jsval) list"

fun truthy :: "jsval \<Rightarrow> bool" where
  "truthy JUndefined = False"
| "truthy JNull = False"
| "truthy (JBool b) = b"
| "truthy (JNum n) = (n \<noteq> 0)"
| "truthy (JStr s) = (s \<noteq> [])"
| "truthy (JEnum t) = True"
| "truthy (JArr xs) = True"
| "truthy (JObj ps) = True"

definition jsOr :: "jsval \<Rightarrow> jsval \<Rightarrow> jsval" where
  \<comment> \<open>\<open>a || b\<close>\<close>
  "jsOr a b = (if truthy a then a else b)"

definition getProp :: "(string \<times> jsval) list \<Rightarrow> string \<Rightarrow> jsval" where
  \<comment> \<open>a property read on an object: \<open>undefined\<close> when the key is absent\<close>
  "getProp obj k = (case map_of obj k of None \<Rightarrow> JUndefined | Some v \<Rightarrow> v)"

fun mapResult :: "('a \<Rightarrow> error + 'b) \<Rightarrow> 'a list \<Rightarrow> error + 'b list" where
  \<comment> \<open>\<open>xs.map(f)\<close> for a callback that may throw: the first exception ends the map\<close>
  "mapResult f [] = Inr []"
| "mapResult f (x # xs) =
     (case f x of
        Inl e \<Rightarrow> Inl e
      | Inr y \<Rightarrow> (case mapResult f xs of Inl e \<Rightarrow> Inl e | Inr ys \<Rightarrow> Inr (y # ys)))"

section \<open>The platform library\<close>

text \<open>
  What the source takes from the JavaScript platform and from packages is a parameter of
  the model: one record of functions and settings, passed to every operation that needs
  it.  \<open>formatVmessUri\<close> (\<open>./v2ray\<close>) and \<open>OBFS_UA\<close> (\<open>./constant\<close>) belong to
  this repository but are not among the sources, and are parameters as well.
\<close>

record ParsedUrl =
  \<comment> \<open>the fields read from the result of \<open>legacyUrl.parse(item, true)\<close>; \<open>None\<close> is \<open>null\<close>\<close>
  url_auth :: "string option"
  url_hostname :: "string option"
  url_port :: "string option"
  url_hash :: "string option"
  url_query :: "(string \<times> jsval) list"

record Lib =
  jsNumber :: "jsval \<Rightarrow> int option"             \<comment> \<open>\<open>Number(v)\<close>; \<open>None\<close> is \<open>NaN\<close>\<close>
  jsonParse :: "string \<Rightarrow> jsval option"          \<comment> \<open>\<open>JSON.parse\<close>; \<open>None\<close> when it throws\<close>
  jsonStringify :: "jsval \<Rightarrow> string"             \<comment> \<open>\<open>JSON.stringify(v)\<close>\<close>
  jsonStringifyPretty :: "jsval \<Rightarrow> string"       \<comment> \<open>\<open>JSON.stringify(v, null, 2)\<close>\<close>
  bufferToBase64 :: "string \<Rightarrow> string"          \<comment> \<open>\<open>Buffer.from(s, 'utf8').toString('base64')\<close>\<close>
  bufferFromBase64 :: "string \<Rightarrow> string"        \<comment> \<open>\<open>Buffer.from(s, 'base64').toString('utf8')\<close>\<close>
  urlSafeEncode :: "string \<Rightarrow> string"           \<comment> \<open>\<open>URLSafeBase64.encode(Buffer.from(s, 'utf8'))\<close>\<close>
  urlSafeValidate :: "string \<Rightarrow> bool"           \<comment> \<open>\<open>URLSafeBase64.validate(s)\<close>\<close>
  urlSafeDecode :: "string \<Rightarrow> string"           \<comment> \<open>\<open>URLSafeBase64.decode(s).toString()\<close>\<close>
  encodeURIComponent :: "string \<Rightarrow> string"
  decodeURIComponent :: "string \<Rightarrow> string option"   \<comment> \<open>\<open>None\<close> when it throws\<close>
  urlParse :: "string \<Rightarrow> ParsedUrl"             \<comment> \<open>\<open>legacyUrl.parse(s, true)\<close>\<close>
  queryStringify :: "bool \<Rightarrow> (string \<times> string) list \<Rightarrow> string"
      \<comment> \<open>\<open>queryString.stringify(obj, {encode: false, sort})\<close>; the flag is \<open>sort\<close>\<close>
  pathJoin :: "string \<Rightarrow> string \<Rightarrow> string"     \<comment> \<open>\<open>path.join(a, b)\<close>\<close>
  homedir :: string                              \<comment> \<open>\<open>os.homedir()\<close>\<close>
  homeWritable :: bool                           \<comment> \<open>whether \<open>fs.accessSync(homedir, W_OK)\<close> returns\<close>
  nodeEnvTest :: bool                            \<comment> \<open>\<open>process.env.NODE_ENV === 'test'\<close>\<close>
  formatVmessUri :: "NodeConfig \<Rightarrow> string"
  OBFS_UA :: string

definition toUrlSafeBase64 :: "Lib \<Rightarrow> string \<Rightarrow> string" where
  "toUrlSafeBase64 lib str = urlSafeEncode lib str"

definition toBase64 :: "Lib \<Rightarrow> string \<Rightarrow> string" where
  "toBase64 lib str = bufferToBase64 lib str"

definition fromBase64 :: "Lib \<Rightarrow> string \<Rightarrow> string" where
  "fromBase64 lib str = bufferFromBase64 lib str"

definition fromUrlSafeBase64 :: "Lib \<Rightarrow> string \<Rightarrow> string" where
  "fromUrlSafeBase64 lib str =
     (if urlSafeValidate lib str then urlSafeDecode lib str else fromBase64 lib str)"

section \<open>The V2RayN subscription decoder\<close>

text \<open>
  \<open>getV2rayNSubscription\<close> from the response body on (the cache and the network fetch
  that produce the body are outside the model).  A warning printed with \<open>console.log\<close>
  is recorded by the values it mentions: the network and the name of the node.
\<close>

datatype warning = UnsupportedVmessNetwork jsval jsval

definition versionOk :: "Lib \<Rightarrow> (string \<times> jsval) list \<Rightarrow> bool" where
  \<comment> \<open>the negation of \<open>!json.v || Number(json.v) !== 2\<close>\<close>
  "versionOk lib json =
     (\<not> (\<not> truthy (getProp json ''v'') \<or> jsNumber lib (getProp json ''v'') \<noteq> Some 2))"

definition unsupportedNetwork :: "(string \<times> jsval) list \<Rightarrow> bool" where
  \<comment> \<open>\<open>['kcp', 'http'].indexOf(json.net) > -1\<close>\<close>
  "unsupportedNetwork json = (getProp json ''net'' \<in> set [JStr ''kcp'', JStr ''http''])"

definition vmessWarning :: "(string \<times> jsval) list \<Rightarrow> warning" where
  "vmessWarning json = UnsupportedVmessNetwork (getProp json ''net'') (getProp json ''ps'')"

definition vmessNode :: "(string \<times> jsval) list \<Rightarrow> (string \<times> jsval) list" where
  \<comment> \<open>the object literal returned for an accepted line\<close>
  "vmessNode json =
     [(''nodeName'', getProp json ''ps''),
      (''type'', JEnum Vmess),
      (''hostname'', getProp json ''add''),
      (''port'', getProp json ''port''),
      (''method'', JStr ''auto''),
      (''uuid'', getProp json ''id''),
      (''alterId'', jsOr (getProp json ''aid'') (JStr ''0'')),
      (''network'', getProp json ''net''),
      (''tls'', JBool (getProp json ''tls'' = JStr ''tls'')),
      (''host'', jsOr (getProp json ''host'') (JStr [])),
      (''path'', jsOr (getProp json ''path'') (JStr ''/''))]"

definition decodeVmessLine ::
  "Lib \<Rightarrow> string
     \<Rightarrow> error + (warning + (string \<times> jsval) list)" where
  \<comment> \<open>The callback of \<open>configList.map\<close>: \<open>Inr (Inl w)\<close> is the \<open>null\<close> returned after the
      warning \<open>w\<close>, \<open>Inr (Inr node)\<close> a decoded node.  Reading a property of a value
      that is not an object gives \<open>undefined\<close>, of \<open>null\<close> a \<open>TypeError\<close>.\<close>
  "decodeVmessLine lib item =
     (case jsonParse lib (fromBase64 lib (replaceFirst ''vmess://'' [] item)) of
        None \<Rightarrow> Inl SyntaxError
      | Some JNull \<Rightarrow> Inl TypeError
      | Some parsed \<Rightarrow>
          (let json = (case parsed of JObj ps \<Rightarrow> ps | _ \<Rightarrow> [])
           in if \<not> versionOk lib json then Inl InvalidSubscription
              else if unsupportedNetwork json then Inr (Inl (vmessWarning json))
              else Inr (Inr (vmessNode json))))"

definition vmessLines :: "Lib \<Rightarrow> string \<Rightarrow> string list" where
  \<comment> \<open>\<open>configList\<close>\<close>
  "vmessLines lib response =
     filter (\<lambda>item. startsWith item ''vmess://'')
       (filter (\<lambda>item. item \<noteq> []) (split LF (fromBase64 lib response)))"

definition printed :: "(warning + 'a) list \<Rightarrow> warning list" where
  \<comment> \<open>the warnings printed while mapping, in order\<close>
  "printed rs = [w. Inl w \<leftarrow> rs]"

definition nonNull :: "(warning + 'a) list \<Rightarrow> 'a list" where
  \<comment> \<open>\<open>.filter(item => !!item)\<close> on the mapped lines: a node object is truthy, \<open>null\<close> is not\<close>
  "nonNull rs = [node. Inr node \<leftarrow> rs]"

definition getV2rayNSubscription ::
  "Lib \<Rightarrow> string
     \<Rightarrow> error + (warning list \<times> (string \<times> jsval) list list)" where
  \<comment> \<open>the warnings printed and the nodes returned; \<open>null\<close> entries are filtered out\<close>
  "getV2rayNSubscription lib response =
     (case mapResult (decodeVmessLine lib) (vmessLines lib response) of
        Inl e \<Rightarrow> Inl e
      | Inr rs \<Rightarrow> Inr (printed rs, nonNull rs))"

section \<open>The Shadowsocks (SIP002) subscription decoder\<close>

fun setProp :: "string \<Rightarrow> jsval \<Rightarrow> (string \<times> jsval) list \<Rightarrow> (string \<times> jsval) list" where
  \<comment> \<open>\<open>obj[k] = v\<close>: an existing key keeps its place\<close>
  "setProp k v [] = [(k, v)]"
| "setProp k v ((k', v') # ps) = (if k = k' then (k, v) # ps else (k', v') # setProp k v ps)"

definition spread :: "(string \<times> jsval) list \<Rightarrow> (string \<times> jsval) list \<Rightarrow> (string \<times> jsval) list" where
  \<comment> \<open>\<open>{...obj, ...extra}\<close>\<close>
  "spread obj extra = foldl (\<lambda>acc kv. setProp (fst kv) (snd kv) acc) obj extra"

definition decodeStringList :: "string list \<Rightarrow> (string \<times> jsval) list" where
  \<comment> \<open>\<open>result[pair[0]] = pair[1] || true\<close> for every item\<close>
  "decodeStringList stringList =
     foldl (\<lambda>result item.
              (case split CHR ''='' item of
                 [] \<Rightarrow> result
               | k # rest \<Rightarrow>
                   setProp k (case rest of
                                [] \<Rightarrow> JBool True
                              | v # _ \<Rightarrow> (if v \<noteq> [] then JStr v else JBool True)) result))
       [] stringList"

definition optJs :: "string option \<Rightarrow> jsval \<Rightarrow> jsval" where
  \<comment> \<open>an optional string as a value; the second argument is what absence is (\<open>null\<close> or \<open>undefined\<close>)\<close>
  "optJs v absent = (case v of None \<Rightarrow> absent | Some s \<Rightarrow> JStr s)"

definition decodeShadowsocksUri ::
  "Lib \<Rightarrow> bool option \<Rightarrow> string \<Rightarrow> error + (string \<times> jsval) list" where
  \<comment> \<open>The callback of \<open>configList.map\<close>.  \<open>fromUrlSafeBase64(null)\<close> and \<open>null.replace\<close>
      throw a \<open>TypeError\<close>; \<open>decodeURIComponent\<close> may throw.\<close>
  "decodeShadowsocksUri lib udpRelay item =
     (let scheme = urlParse lib item
      in case url_auth scheme of
           None \<Rightarrow> Inl TypeError
         | Some auth \<Rightarrow>
             (let userInfo = split CHR '':'' (fromUrlSafeBase64 lib auth);
                  pluginInfo = (case getProp (url_query scheme) ''plugin'' of
                                  JStr plugin \<Rightarrow> decodeStringList (split CHR '';'' plugin)
                                | _ \<Rightarrow> [])
              in case url_hash scheme of
                   None \<Rightarrow> Inl TypeError
                 | Some hash \<Rightarrow>
                     (case decodeURIComponent lib (replaceFirst ''#'' [] hash) of
                        None \<Rightarrow> Inl URIError
                      | Some name \<Rightarrow>
                          Inr (spread (spread (spread
                                 [(''type'', JEnum Shadowsocks),
                                  (''nodeName'', JStr name),
                                  (''hostname'', optJs (url_hostname scheme) JNull),
                                  (''port'', optJs (url_port scheme) JNull),
                                  (''method'', (case userInfo of [] \<Rightarrow> JUndefined | m # _ \<Rightarrow> JStr m)),
                                  (''password'', (case userInfo of _ # pw # _ \<Rightarrow> JStr pw | _ \<Rightarrow> JUndefined))]
                                 (case udpRelay of
                                    Some b \<Rightarrow> [(''udp-relay'', JBool b)]
                                  | None \<Rightarrow> []))
                                 (if truthy (getProp pluginInfo ''obfs-local'')
                                  then [(''obfs'', getProp pluginInfo ''obfs''),
                                        (''obfs-host'', getProp pluginInfo ''obfs-host'')]
                                  else []))
                                 (if truthy (getProp pluginInfo ''v2ray-plugin'')
                                  then [(''obfs'', JStr (if truthy (getProp pluginInfo ''tls'') then ''wss'' else ''ws'')),
                                        (''obfs-host'', getProp pluginInfo ''host'')]
                                  else [])))))"

definition getShadowsocksSubscription ::
  "Lib \<Rightarrow> bool option \<Rightarrow> string \<Rightarrow> error + (string \<times> jsval) list list" where
  \<comment> \<open>from the response body on\<close>
  "getShadowsocksSubscription lib udpRelay response =
     (let configList = filter (\<lambda>item. item \<noteq> [] \<and> startsWith item ''ss://'')
                         (split LF (fromBase64 lib response))
      in mapResult (decodeShadowsocksUri lib udpRelay) configList)"

definition asShadowsocksNodeConfig :: "(string \<times> jsval) list \<Rightarrow> NodeConfig option" where
  \<comment> \<open>The decoder's result read at its declared type \<open>ShadowsocksNodeConfig\<close>: defined when
      the required properties are strings.\<close>
  "asShadowsocksNodeConfig obj =
     (case (getProp obj ''nodeName'', getProp obj ''hostname'', getProp obj ''port'',
            getProp obj ''method'', getProp obj ''password'') of
        (JStr name, JStr h, JStr p, JStr m, JStr pw) \<Rightarrow>
          Some (blankNode\<lparr> type := Shadowsocks, nodeName := name, hostname := h, port := p,
                  method' := m, password := pw,
                  udp_relay := (case getProp obj ''udp-relay'' of JBool b \<Rightarrow> Some b | _ \<Rightarrow> None),
                  obfs := (case getProp obj ''obfs'' of JStr x \<Rightarrow> Some x | _ \<Rightarrow> None),
                  obfs_host := (case getProp obj ''obfs-host'' of JStr x \<Rightarrow> Some x | _ \<Rightarrow> None) \<rparr>)
      | _ \<Rightarrow> None)"

section \<open>Serializers\<close>

definition nonNullStrings :: "string option list \<Rightarrow> string list" where
  \<comment> \<open>\<open>.filter(item => item !== null)\<close>\<close>
  "nonNullStrings rs = [s. Some s \<leftarrow> rs]"

definition truthyStrings :: "string option list \<Rightarrow> string list" where
  \<comment> \<open>\<open>.filter(item => !!item)\<close>: \<open>null\<close> and the empty string are dropped\<close>
  "truthyStrings rs = filter (\<lambda>s. s \<noteq> []) [s. Some s \<leftarrow> rs]"

definition nonNullValues :: "jsval option list \<Rightarrow> jsval list" where
  "nonNullValues rs = [v. Some v \<leftarrow> rs]"

definition flag :: "string \<Rightarrow> bool option \<Rightarrow> string list" where
  \<comment> \<open>\<open>...(typeof v === 'boolean' ? [`key=${v}`] : [])\<close>\<close>
  "flag key v = (case v of None \<Rightarrow> [] | Some b \<Rightarrow> [key @ ''='' @ boolText b])"

definition ownProperty :: "NodeConfig \<Rightarrow> string \<Rightarrow> string option" where
  \<comment> \<open>The text of \<open>obj[key]\<close> when \<open>obj.hasOwnProperty(key)\<close>, for the keys that are picked.
      The required properties are always present; an optional one is present with its
      value, or present as \<open>undefined\<close>, or absent.\<close>
  "ownProperty obj key =
     (let optional = (\<lambda>v. case v of
                             Some t \<Rightarrow> Some t
                           | None \<Rightarrow> (if key \<in> set (presentUndefined obj)
                                      then Some ''undefined'' else None))
      in if key = ''password'' then Some (password obj)
         else if key = ''method'' then Some (method' obj)
         else if key = ''username'' then Some (username obj)
         else if key = ''psk'' then Some (psk obj)
         else if key = ''udp-relay'' then optional (map_option boolText (udp_relay obj))
         else if key = ''tfo'' then optional (map_option boolText (tfo obj))
         else if key = ''obfs'' then optional (obfs obj)
         else if key = ''obfs-host'' then optional (obfs_host obj)
         else None)"

definition pickAndFormatStringList :: "NodeConfig \<Rightarrow> string list \<Rightarrow> string list" where
  "pickAndFormatStringList obj keyList =
     concat (map (\<lambda>key. case ownProperty obj key of
                          None \<Rightarrow> []
                        | Some v \<Rightarrow> [key @ ''='' @ v]) keyList)"

definition orElse :: "string \<Rightarrow> string \<Rightarrow> string" where
  \<comment> \<open>\<open>a || b\<close> on strings\<close>
  "orElse a b = (if a \<noteq> [] then a else b)"

subsection \<open>Surge\<close>

definition ensureConfigFolder :: "Lib \<Rightarrow> string" where
  \<comment> \<open>the directory returned; creating it is not part of the model\<close>
  "ensureConfigFolder lib =
     (let baseDir = (if homeWritable lib then homedir lib else ''/tmp'')
      in pathJoin lib baseDir ''.config/surgio'')"

definition surgeHeader :: "Lib \<Rightarrow> string \<Rightarrow> string" where
  \<comment> \<open>the local \<open>getHeader\<close> of the Surge serializer, with the default \<open>ua\<close>\<close>
  "surgeHeader lib h =
     join ''|'' [''Host:'' @ h, ''User-Agent:'' @ jsonStringify lib (JStr (OBFS_UA lib))]"

definition surgeVmessNative :: "Lib \<Rightarrow> NodeConfig \<Rightarrow> string list" where
  \<comment> \<open>\<open>configList\<close> of the native VMess branch\<close>
  "surgeVmessNative lib config =
     [''vmess'', hostname config, port config, ''username='' @ uuid config]
     @ (if network config = ''ws''
        then [''ws=true'', ''ws-path='' @ path config,
              ''ws-headers='' @ surgeHeader lib (orElse (host config) (hostname config))]
        else [])
     @ (if tls config
        then [''tls=true''] @ flag ''tls13'' (tls13 config)
             @ flag ''skip-cert-verify'' (skipCertVerify config)
        else [])
     @ flag ''udp-relay'' (udp_relay config)
     @ flag ''tfo'' (tfo config)
     @ flag ''mptcp'' (mptcp config)"

definition surgeShadowsocksNative :: "NodeConfig \<Rightarrow> string list" where
  \<comment> \<open>the list joined by \<open>', '\<close> in the \<open>ss\<close> format of a Shadowsocks node\<close>
  "surgeShadowsocksNative config =
     [''ss'', hostname config, port config, ''encrypt-method='' @ method' config]
     @ pickAndFormatStringList config [''password'', ''udp-relay'', ''obfs'', ''obfs-host'', ''tfo'']
     @ flag ''mptcp'' (mptcp config)"

definition surgeShadowsocksCustom :: "NodeConfig \<Rightarrow> string list" where
  \<comment> \<open>the list joined by \<open>', '\<close> in the external-module format of a Shadowsocks node\<close>
  "surgeShadowsocksCustom config =
     [''custom'', hostname config, port config, method' config, password config,
      ''https://raw.githubusercontent.com/ConnersHua/SSEncrypt/master/SSEncrypt.module'']
     @ pickAndFormatStringList config [''udp-relay'', ''obfs'', ''obfs-host'', ''tfo'']
     @ flag ''mptcp'' (mptcp config)"

definition surgeHttps :: "NodeConfig \<Rightarrow> string list" where
  "surgeHttps config =
     [''https'', hostname config, port config, username config, password config]
     @ flag ''tls13'' (tls13 config)
     @ flag ''skip-cert-verify'' (skipCertVerify config)
     @ flag ''tfo'' (tfo config)
     @ flag ''mptcp'' (mptcp config)"

definition surgeSnell :: "NodeConfig \<Rightarrow> string list" where
  "surgeSnell config =
     [''snell'', hostname config, port config]
     @ pickAndFormatStringList config [''psk'', ''obfs'']
     @ flag ''tfo'' (tfo config)
     @ flag ''mptcp'' (mptcp config)"

definition surgeAddresses :: "NodeConfig \<Rightarrow> string list" where
  "surgeAddresses config =
     (case hostnameIp config of
        None \<Rightarrow> []
      | Some ips \<Rightarrow> map (\<lambda>item. ''addresses = '' @ item) ips)
     @ [''addresses = '' @ hostname config]"

definition surgeNode :: "Lib \<Rightarrow> NodeConfig \<Rightarrow> error + (string option \<times> (string \<times> NodeConfig) list)" where
  \<comment> \<open>The callback of \<open>map\<close> in \<open>getSurgeNodes\<close>: the line (\<open>None\<close> is \<open>null\<close>, returned after a
      warning) and the JSON files written, each as its path and the node that
      \<open>formatV2rayConfig\<close> is applied to.\<close>
  "surgeNode lib nodeConfig =
     (case type nodeConfig of
        Shadowsocks \<Rightarrow>
          (if obfs nodeConfig \<in> set [Some ''ws'', Some ''wss''] then Inr (None, [])
           else if (case surgeConfig nodeConfig of
                      None \<Rightarrow> False
                    | Some sc \<Rightarrow> shadowsocksFormat sc = Some ''ss'')
           then Inr (Some (join '' = ''
                  [nodeName nodeConfig, join '', '' (surgeShadowsocksNative nodeConfig)]), [])
           else Inr (Some (join '' = ''
                  [nodeName nodeConfig, join '', '' (surgeShadowsocksCustom nodeConfig)]), []))
      | HTTPS \<Rightarrow>
          Inr (Some (join '' = '' [nodeName nodeConfig, join '', '' (surgeHttps nodeConfig)]), [])
      | Snell \<Rightarrow>
          Inr (Some (join '' = '' [nodeName nodeConfig, join '', '' (surgeSnell nodeConfig)]), [])
      | Shadowsocksr \<Rightarrow>
          (if \<not> truthyStr (binPath nodeConfig) then Inl (MissingBinPath Shadowsocksr)
           else
             (let args = [Some ''-s'', Some (hostname nodeConfig), Some ''-p'', Some (port nodeConfig),
                          Some ''-m'', Some (method' nodeConfig), Some ''-o'', obfs nodeConfig,
                          Some ''-O'', Some (protocol nodeConfig), Some ''-k'', Some (password nodeConfig),
                          Some ''-l'', Some (optText (localPort nodeConfig)),
                          Some ''-b'', Some ''127.0.0.1'']
                         @ (if protoparam nodeConfig \<noteq> []
                            then [Some ''-G'', Some (protoparam nodeConfig)] else [])
                         @ (if obfsparam nodeConfig \<noteq> []
                            then [Some ''-g'', Some (obfsparam nodeConfig)] else []);
                  configString =
                    [''external'',
                     ''exec = '' @ jsonStringify lib (JStr (optText (binPath nodeConfig)))]
                    @ map (\<lambda>arg. ''args = '' @ (case arg of
                                                  None \<Rightarrow> ''undefined''
                                                | Some a \<Rightarrow> jsonStringify lib (JStr a))) args
                    @ [''local-port = '' @ optText (localPort nodeConfig)]
                    @ surgeAddresses nodeConfig
              in Inr (Some (join '' = '' [nodeName nodeConfig, join '', '' configString]), [])))
      | Vmess \<Rightarrow>
          (if (case surgeConfig nodeConfig of None \<Rightarrow> False | Some sc \<Rightarrow> v2ray sc = Some ''native'')
           then Inr (Some (join '' = ''
                  [nodeName nodeConfig, join '', '' (surgeVmessNative lib nodeConfig)]), [])
           else if \<not> truthyStr (binPath nodeConfig) then Inl (MissingBinPath Vmess)
           else
             (let jsonFileName = ''v2ray_'' @ optText (localPort nodeConfig) @ ''_''
                                 @ hostname nodeConfig @ ''_'' @ port nodeConfig @ ''.json'';
                  jsonFilePath = pathJoin lib (ensureConfigFolder lib) jsonFileName;
                  args = [''--config'', replaceFirst (homedir lib) ''$HOME'' jsonFilePath];
                  configString =
                    [''external'',
                     ''exec = '' @ jsonStringify lib (JStr (optText (binPath nodeConfig)))]
                    @ map (\<lambda>arg. ''args = '' @ jsonStringify lib (JStr arg)) args
                    @ [''local-port = '' @ optText (localPort nodeConfig)]
                    @ surgeAddresses nodeConfig
              in Inr (Some (join '' = '' [nodeName nodeConfig, join '', '' configString]),
                      (if nodeEnvTest lib then [] else [(jsonFilePath, nodeConfig)])))))"

definition getSurgeNodes ::
  "Lib \<Rightarrow> NodeConfig list \<Rightarrow> NodeFilter \<Rightarrow> error + (string \<times> (string \<times> NodeConfig) list)" where
  \<comment> \<open>the text returned and the files written\<close>
  "getSurgeNodes lib list flt =
     (case applyFilter list flt of
        Inl e \<Rightarrow> Inl e
      | Inr nodes \<Rightarrow>
          (case mapResult (surgeNode lib) nodes of
             Inl e \<Rightarrow> Inl e
           | Inr rs \<Rightarrow> Inr (join [LF] (nonNullStrings (map fst rs)), concat (map snd rs))))"

subsection \<open>Clash\<close>

definition clashNode :: "NodeConfig \<Rightarrow> jsval option" where
  \<comment> \<open>The callback of \<open>map\<close> in \<open>getClashNodes\<close>; an object is its properties in the
      order in which the literal and its spreads add them.\<close>
  "clashNode nodeConfig =
     (if enable nodeConfig = Some False then None
      else case type nodeConfig of
        Shadowsocks \<Rightarrow>
          Some (JObj
            ([(''type'', JStr ''ss''),
              (''cipher'', JStr (method' nodeConfig)),
              (''name'', JStr (nodeName nodeConfig)),
              (''password'', JStr (password nodeConfig)),
              (''port'', JStr (port nodeConfig)),
              (''server'', JStr (hostname nodeConfig)),
              (''udp'', JBool (if udp_relay nodeConfig = Some True then True else False))]
             @ (if obfs nodeConfig \<in> set [Some ''tls'', Some ''http'']
                then [(''plugin'', JStr ''obfs''),
                      (''plugin-opts'', JObj
                         [(''mode'', optJs (obfs nodeConfig) JUndefined),
                          (''host'', optJs (obfs_host nodeConfig) JUndefined)])]
                else [])
             @ (if obfs nodeConfig \<in> set [Some ''ws'', Some ''wss'']
                then [(''plugin'', JStr ''v2ray-plugin''),
                      (''plugin-opts'', JObj
                         ([(''mode'', JStr ''websocket''),
                           (''tls'', JBool (obfs nodeConfig = Some ''wss''))]
                          @ (case skipCertVerify nodeConfig of
                               Some b \<Rightarrow> (if obfs nodeConfig = Some ''wss''
                                          then [(''skip-cert-verify'', JBool b)] else [])
                             | None \<Rightarrow> [])
                          @ [(''host'', optJs (obfs_host nodeConfig) JUndefined),
                             (''path'', JStr (if truthyStr (obfs_uri nodeConfig)
                                              then optText (obfs_uri nodeConfig) else ''/'')),
                             (''mux'', JBool False)]))]
                else [])))
      | Vmess \<Rightarrow>
          Some (JObj
            ([(''type'', JStr ''vmess''),
              (''cipher'', JStr (method' nodeConfig)),
              (''name'', JStr (nodeName nodeConfig)),
              (''server'', JStr (hostname nodeConfig)),
              (''port'', JStr (port nodeConfig)),
              (''uuid'', JStr (uuid nodeConfig)),
              (''alterId'', JStr (alterId nodeConfig))]
             @ (case udp nodeConfig of Some b \<Rightarrow> [(''udp'', JBool b)] | None \<Rightarrow> [])
             @ (if network nodeConfig = ''tcp'' then []
                else [(''network'', JStr (network nodeConfig))])
             @ [(''tls'', JBool (tls nodeConfig))]
             @ (case skipCertVerify nodeConfig of
                  Some b \<Rightarrow> (if tls nodeConfig then [(''skip-cert-verify'', JBool b)] else [])
                | None \<Rightarrow> [])
             @ (if network nodeConfig = ''ws''
                then [(''ws-path'', JStr (path nodeConfig)),
                      (''ws-headers'', JObj (if host nodeConfig \<noteq> []
                                             then [(''Host'', JStr (host nodeConfig))] else []))]
                else [])))
      | Shadowsocksr \<Rightarrow>
          Some (JObj
            ([(''type'', JStr ''ssr''),
              (''name'', JStr (nodeName nodeConfig)),
              (''server'', JStr (hostname nodeConfig))]
             @ (case udp_relay nodeConfig of Some b \<Rightarrow> [(''udp'', JBool b)] | None \<Rightarrow> [])
             @ [(''port'', JStr (port nodeConfig)),
                (''password'', JStr (password nodeConfig)),
                (''obfs'', optJs (obfs nodeConfig) JUndefined),
                (''obfsparam'', JStr (obfsparam nodeConfig)),
                (''protocol'', JStr (protocol nodeConfig)),
                (''protocolparam'', JStr (protoparam nodeConfig)),
                (''cipher'', JStr (method' nodeConfig))]))
      | Snell \<Rightarrow>
          Some (JObj
            [(''type'', JStr ''snell''),
             (''name'', JStr (nodeName nodeConfig)),
             (''server'', JStr (hostname nodeConfig)),
             (''port'', JStr (port nodeConfig)),
             (''psk'', JStr (psk nodeConfig)),
             (''obfs-opts'', JObj [(''mode'', optJs (obfs nodeConfig) JUndefined)])])
      | HTTPS \<Rightarrow> None)"

definition getClashNodes :: "NodeConfig list \<Rightarrow> NodeFilter \<Rightarrow> error + jsval list" where
  "getClashNodes list flt =
     (case applyFilter list flt of
        Inl e \<Rightarrow> Inl e
      | Inr nodes \<Rightarrow> Inr (nonNullValues (map clashNode nodes)))"

subsection \<open>Mellow\<close>

definition mellowNode :: "Lib \<Rightarrow> NodeConfig \<Rightarrow> string option" where
  "mellowNode lib nodeConfig =
     (case type nodeConfig of
        Vmess \<Rightarrow>
          (let uri = formatVmessUri lib nodeConfig
           in Some (join '', '' [nodeName nodeConfig, ''vmess1'',
                                 replaceFirst ''vmess://'' ''vmess1://'' (trim uri)]))
      | _ \<Rightarrow> None)"

definition getMellowNodes :: "Lib \<Rightarrow> NodeConfig list \<Rightarrow> NodeFilter \<Rightarrow> error + string" where
  "getMellowNodes lib list flt =
     (case applyFilter list flt of
        Inl e \<Rightarrow> Inl e
      | Inr nodes \<Rightarrow> Inr (join [LF] (truthyStrings (map (mellowNode lib) nodes))))"

subsection \<open>Shadowsocks, ShadowsocksR and V2RayN URIs, Shadowsocks JSON\<close>

definition shadowsocksUri :: "Lib \<Rightarrow> string \<Rightarrow> NodeConfig \<Rightarrow> string option" where
  \<comment> \<open>the callback of \<open>map\<close> in \<open>getShadowsocksNodes\<close>, for the effective \<open>groupName\<close>\<close>
  "shadowsocksUri lib groupName nodeConfig =
     (if enable nodeConfig = Some False then None
      else case type nodeConfig of
        Shadowsocks \<Rightarrow>
          (let config = nodeConfig;
               query =
                 (if truthyStr (obfs config)
                  then [(''plugin'', encodeURIComponent lib
                           (''obfs-local;obfs='' @ optText (obfs config)
                            @ '';obfs-host='' @ optText (obfs_host config)))]
                  else [])
                 @ (if groupName \<noteq> [] then [(''group'', encodeURIComponent lib groupName)] else [])
           in Some (join []
                [''ss://'',
                 toUrlSafeBase64 lib (method' config @ '':'' @ password config),
                 ''@'', hostname config, '':'', port config, ''/?'',
                 queryStringify lib False query,
                 ''#'', encodeURIComponent lib (nodeName config)]))
      | _ \<Rightarrow> None)"

definition getShadowsocksNodes :: "Lib \<Rightarrow> NodeConfig list \<Rightarrow> string option \<Rightarrow> string" where
  \<comment> \<open>the second argument is optional and defaults to \<open>Surgio\<close>\<close>
  "getShadowsocksNodes lib list groupNameArg =
     (let groupName = (case groupNameArg of None \<Rightarrow> ''Surgio'' | Some g \<Rightarrow> g)
      in join [LF] (truthyStrings (map (shadowsocksUri lib groupName) list)))"

definition shadowsocksrUri :: "Lib \<Rightarrow> string \<Rightarrow> NodeConfig \<Rightarrow> string option" where
  "shadowsocksrUri lib groupName nodeConfig =
     (if enable nodeConfig = Some False then None
      else case type nodeConfig of
        Shadowsocksr \<Rightarrow>
          (let baseUri = join '':''
                 [hostname nodeConfig, port nodeConfig, protocol nodeConfig, method' nodeConfig,
                  (case obfs nodeConfig of None \<Rightarrow> [] | Some x \<Rightarrow> x),
                  toUrlSafeBase64 lib (password nodeConfig)];
               query = [(''obfsparam'', toUrlSafeBase64 lib (obfsparam nodeConfig)),
                        (''protoparam'', toUrlSafeBase64 lib (protoparam nodeConfig)),
                        (''remarks'', toUrlSafeBase64 lib (nodeName nodeConfig)),
                        (''group'', toUrlSafeBase64 lib groupName),
                        (''udpport'', ''0''),
                        (''uot'', ''0'')]
           in Some (''ssr://'' @ toUrlSafeBase64 lib
                      (join [] [baseUri, ''/?'', queryStringify lib True query])))
      | _ \<Rightarrow> None)"

definition getShadowsocksrNodes :: "Lib \<Rightarrow> NodeConfig list \<Rightarrow> string \<Rightarrow> string" where
  "getShadowsocksrNodes lib list groupName =
     join [LF] (nonNullStrings (map (shadowsocksrUri lib groupName) list))"

definition v2rayNUri :: "Lib \<Rightarrow> NodeConfig \<Rightarrow> string option" where
  "v2rayNUri lib nodeConfig =
     (if enable nodeConfig = Some False then None
      else case type nodeConfig of
        Vmess \<Rightarrow>
          (let json = JObj
                 [(''v'', JStr ''2''),
                  (''ps'', JStr (nodeName nodeConfig)),
                  (''add'', JStr (hostname nodeConfig)),
                  (''port'', JStr (port nodeConfig)),
                  (''id'', JStr (uuid nodeConfig)),
                  (''aid'', JStr (alterId nodeConfig)),
                  (''net'', JStr (network nodeConfig)),
                  (''type'', JStr ''none''),
                  (''host'', JStr (host nodeConfig)),
                  (''path'', JStr (path nodeConfig)),
                  (''tls'', JStr (if tls nodeConfig then ''tls'' else []))]
           in Some (''vmess://'' @ toBase64 lib (jsonStringify lib json)))
      | _ \<Rightarrow> None)"

definition getV2rayNNodes :: "Lib \<Rightarrow> NodeConfig list \<Rightarrow> string" where
  "getV2rayNNodes lib list = join [LF] (truthyStrings (map (v2rayNUri lib) list))"

definition shadowsocksJSONNode :: "Lib \<Rightarrow> NodeConfig \<Rightarrow> jsval option" where
  "shadowsocksJSONNode lib nodeConfig =
     (if enable nodeConfig = Some False then None
      else case type nodeConfig of
        Shadowsocks \<Rightarrow>
          (let useObfs = (truthyStr (obfs nodeConfig) \<and> truthyStr (obfs_host nodeConfig))
           in Some (JObj
                ([(''remarks'', JStr (nodeName nodeConfig)),
                  (''server'', JStr (hostname nodeConfig)),
                  (''server_port'', JStr (port nodeConfig)),
                  (''method'', JStr (method' nodeConfig)),
                  (''remarks_base64'', JStr (toUrlSafeBase64 lib (nodeName nodeConfig))),
                  (''password'', JStr (password nodeConfig)),
                  (''tcp_over_udp'', JBool False),
                  (''udp_over_tcp'', JBool False),
                  (''enable'', JBool True)]
                 @ (if useObfs
                    then [(''plugin'', JStr ''obfs-local''),
                          (''plugin-opts'', JStr (''obfs='' @ optText (obfs nodeConfig)
                              @ '';obfs-host='' @ optText (obfs_host nodeConfig)))]
                    else []))))
      | _ \<Rightarrow> None)"

definition getShadowsocksNodesJSON :: "Lib \<Rightarrow> NodeConfig list \<Rightarrow> string" where
  "getShadowsocksNodesJSON lib list =
     jsonStringifyPretty lib (JArr (nonNullValues (map (shadowsocksJSONNode lib) list)))"

subsection \<open>Quantumult\<close>

definition quantumultHeader :: "Lib \<Rightarrow> string \<Rightarrow> string" where
  \<comment> \<open>the local \<open>getHeader\<close> of the Quantumult serializer, with the default \<open>ua\<close>\<close>
  "quantumultHeader lib h = join ''[Rr][Nn]'' [''Host:'' @ h, ''User-Agent:'' @ OBFS_UA lib]"

definition quantumultNode :: "Lib \<Rightarrow> string \<Rightarrow> NodeConfig \<Rightarrow> string option" where
  "quantumultNode lib groupName nodeConfig =
     (case type nodeConfig of
        Vmess \<Rightarrow>
          (let config = join '',''
                 (filter (\<lambda>v. v \<noteq> [])
                    [''vmess'', hostname nodeConfig, port nodeConfig,
                     (if method' nodeConfig = ''auto'' then ''chacha20-ietf-poly1305''
                      else method' nodeConfig),
                     jsonStringify lib (JStr (uuid nodeConfig)), alterId nodeConfig,
                     ''group='' @ groupName,
                     ''over-tls='' @ (if tls nodeConfig = True then ''true'' else ''false''),
                     ''certificate=1'',
                     ''obfs='' @ network nodeConfig,
                     ''obfs-path='' @ jsonStringify lib (JStr (orElse (path nodeConfig) ''/'')),
                     ''obfs-header='' @ jsonStringify lib
                        (JStr (quantumultHeader lib (orElse (host nodeConfig) (hostname nodeConfig))))])
           in Some (''vmess://'' @ toBase64 lib (join '' = '' [nodeName nodeConfig, config])))
      | Shadowsocks \<Rightarrow> Some (getShadowsocksNodes lib [nodeConfig] (Some groupName))
      | Shadowsocksr \<Rightarrow> Some (getShadowsocksrNodes lib [nodeConfig] groupName)
      | HTTPS \<Rightarrow>
          (let config = join '' = ''
                 [nodeName nodeConfig,
                  join '', ''
                    [''http'',
                     ''upstream-proxy-address='' @ hostname nodeConfig,
                     ''upstream-proxy-port='' @ port nodeConfig,
                     ''upstream-proxy-auth=true'',
                     ''upstream-proxy-username='' @ username nodeConfig,
                     ''upstream-proxy-password='' @ password nodeConfig,
                     ''over-tls=true'',
                     ''certificate=1'']]
           in Some (''http://'' @ toBase64 lib config))
      | Snell \<Rightarrow> None)"

definition getQuantumultNodes ::
  "Lib \<Rightarrow> NodeConfig list \<Rightarrow> string option \<Rightarrow> NodeFilter \<Rightarrow> error + string" where
  "getQuantumultNodes lib list groupNameArg flt =
     (let groupName = (case groupNameArg of None \<Rightarrow> ''Surgio'' | Some g \<Rightarrow> g)
      in case applyFilter list flt of
           Inl e \<Rightarrow> Inl e
         | Inr nodes \<Rightarrow> Inr (join [LF] (truthyStrings (map (quantumultNode lib groupName) nodes))))"

subsection \<open>Quantumult X\<close>

definition quantumultXVmess :: "NodeConfig \<Rightarrow> string list" where
  \<comment> \<open>\<open>config\<close> of the VMess case, as it is when joined\<close>
  "quantumultXVmess nodeConfig =
     [hostname nodeConfig @ '':'' @ port nodeConfig,
      (if method' nodeConfig = ''auto'' then ''method=chacha20-ietf-poly1305''
       else ''method='' @ method' nodeConfig),
      ''password='' @ uuid nodeConfig,
      ''udp-relay='' @ boolText (if udp nodeConfig = Some True then True else True)]
     @ (if tfo nodeConfig = Some True then [''fast-open='' @ boolText True] else [])
     @ (if network nodeConfig = ''ws''
        then [(if tls nodeConfig then ''obfs=wss'' else ''obfs=ws''),
              ''obfs-uri='' @ orElse (path nodeConfig) ''/'',
              ''obfs-host='' @ orElse (host nodeConfig) (hostname nodeConfig)]
        else if network nodeConfig = ''tcp''
        then (if tls nodeConfig then [''obfs=over-tls''] else [])
        else [])
     @ [''tag='' @ nodeName nodeConfig]"

definition quantumultXShadowsocks :: "NodeConfig \<Rightarrow> string list" where
  "quantumultXShadowsocks nodeConfig =
     [hostname nodeConfig @ '':'' @ port nodeConfig]
     @ pickAndFormatStringList nodeConfig [''method'', ''password'']
     @ (if obfs nodeConfig \<in> set [Some ''http'', Some ''tls'']
        then [''obfs='' @ optText (obfs nodeConfig),
              ''obfs-host='' @ optText (obfs_host nodeConfig)]
        else [])
     @ (if obfs nodeConfig \<in> set [Some ''ws'', Some ''wss'']
        then [''obfs='' @ optText (obfs nodeConfig),
              ''obfs-host='' @ (if truthyStr (obfs_host nodeConfig)
                                then optText (obfs_host nodeConfig) else hostname nodeConfig),
              ''obfs-uri='' @ (if truthyStr (obfs_uri nodeConfig)
                               then optText (obfs_uri nodeConfig) else ''/'')]
        else [])
     @ (if udp_relay nodeConfig = Some True then [''udp-relay='' @ boolText True] else [])
     @ (if tfo nodeConfig = Some True then [''fast-open='' @ boolText True] else [])
     @ [''tag='' @ nodeName nodeConfig]"

definition quantumultXShadowsocksr :: "NodeConfig \<Rightarrow> string list" where
  "quantumultXShadowsocksr nodeConfig =
     [hostname nodeConfig @ '':'' @ port nodeConfig]
     @ pickAndFormatStringList nodeConfig [''method'', ''password'']
     @ [''ssr-protocol='' @ protocol nodeConfig,
        ''ssr-protocol-param='' @ protoparam nodeConfig,
        ''obfs='' @ optText (obfs nodeConfig),
        ''obfs-host='' @ obfsparam nodeConfig]
     @ (if udp_relay nodeConfig = Some True then [''udp-relay='' @ boolText True] else [])
     @ (if tfo nodeConfig = Some True then [''fast-open='' @ boolText True] else [])
     @ [''tag='' @ nodeName nodeConfig]"

definition quantumultXHttps :: "NodeConfig \<Rightarrow> string list" where
  "quantumultXHttps nodeConfig =
     [hostname nodeConfig @ '':'' @ port nodeConfig]
     @ pickAndFormatStringList nodeConfig [''username'', ''password'']
     @ [''over-tls=true'']
     @ (if tfo nodeConfig = Some True then [''fast-open='' @ boolText True] else [])
     @ [''tag='' @ nodeName nodeConfig]"

definition quantumultXNode :: "NodeConfig \<Rightarrow> string option" where
  "quantumultXNode nodeConfig =
     (case type nodeConfig of
        Vmess \<Rightarrow> Some (''vmess='' @ join '', '' (quantumultXVmess nodeConfig))
      | Shadowsocks \<Rightarrow> Some (''shadowsocks='' @ join '', '' (quantumultXShadowsocks nodeConfig))
      | Shadowsocksr \<Rightarrow> Some (''shadowsocks='' @ join '', '' (quantumultXShadowsocksr nodeConfig))
      | HTTPS \<Rightarrow> Some (''http='' @ join '', '' (quantumultXHttps nodeConfig))
      | Snell \<Rightarrow> None)"

definition getQuantumultXNodes :: "NodeConfig list \<Rightarrow> NodeFilter \<Rightarrow> error + string" where
  "getQuantumultXNodes list flt =
     (case applyFilter list flt of
        Inl e \<Rightarrow> Inl e
      | Inr nodes \<Rightarrow> Inr (join [LF] (truthyStrings (map quantumultXNode nodes))))"

subsection \<open>Reading flags off an output\<close>

definition flagTokens :: "string \<Rightarrow> string list \<Rightarrow> string list" where
  \<comment> \<open>the items of a line that set \<open>key\<close>: those that start with \<open>key=\<close>\<close>
  "flagTokens key tokens = filter (prefix (key @ ''='')) tokens"



section \<open>A reference instance of the platform library\<close>

text \<open>
  The theorems below hold for every library.  This instance, which follows the
  platform's functions on ASCII text and on URIs of the shape
  \<open>scheme://auth@host:port/path?query#hash\<close>, is the one the examples are evaluated with.
\<close>

fun showNat :: "nat \<Rightarrow> string" where
  "showNat n = (if n < 10 then [''0123456789'' ! n]
                else showNat (n div 10) @ [''0123456789'' ! (n mod 10)])"

definition showInt :: "int \<Rightarrow> string" where
  "showInt i = (if i < 0 then ''-'' @ showNat (nat (- i)) else showNat (nat i))"

definition hexDigit :: "nat \<Rightarrow> char" where
  "hexDigit n = ''0123456789ABCDEF'' ! (n mod 16)"

definition jsonEscapeChar :: "char \<Rightarrow> string" where
  "jsonEscapeChar c =
     (let n = (of_char c :: nat)
      in if c = CHR 0x22 then [CHR 0x5C, CHR 0x22]
         else if c = CHR 0x5C then [CHR 0x5C, CHR 0x5C]
         else if n = 8 then [CHR 0x5C, CHR ''b'']
         else if n = 9 then [CHR 0x5C, CHR ''t'']
         else if n = 10 then [CHR 0x5C, CHR ''n'']
         else if n = 12 then [CHR 0x5C, CHR ''f'']
         else if n = 13 then [CHR 0x5C, CHR ''r'']
         else if n < 32 then [CHR 0x5C, CHR ''u'', CHR ''0'', CHR ''0'', hexDigit (n div 16), hexDigit n]
         else [c])"

definition jsonQuote :: "string \<Rightarrow> string" where
  "jsonQuote s = [CHR 0x22] @ concat (map jsonEscapeChar s) @ [CHR 0x22]"

fun refStringify :: "jsval \<Rightarrow> string" where
  "refStringify JUndefined = ''undefined''"
| "refStringify JNull = ''null''"
| "refStringify (JBool b) = boolText b"
| "refStringify (JNum n) = showInt n"
| "refStringify (JStr s) = jsonQuote s"
| "refStringify (JEnum t) = ''null''"
| "refStringify (JArr xs) = ''['' @ join '','' (map refStringify xs) @ '']''"
| "refStringify (JObj ps) =
     ''{'' @ join '','' (map (\<lambda>(k, v). jsonQuote k @ '':'' @ refStringify v) ps) @ ''}''"

definition b64chars :: string where
  "b64chars = ''ABCDEFGHIJKLMNOPQRSTUVWXYZabcdefghijklmnopqrstuvwxyz0123456789+/''"

definition b64char :: "nat \<Rightarrow> char" where
  "b64char n = b64chars ! (n mod 64)"

fun b64enc :: "nat list \<Rightarrow> string" where
  "b64enc [] = []"
| "b64enc [a] = [b64char (a div 4), b64char ((a mod 4) * 16), CHR ''='', CHR ''='']"
| "b64enc [a, b] =
     [b64char (a div 4), b64char ((a mod 4) * 16 + b div 16), b64char ((b mod 16) * 4), CHR ''='']"
| "b64enc (a # b # c # rest) =
     [b64char (a div 4), b64char ((a mod 4) * 16 + b div 16),
      b64char ((b mod 16) * 4 + c div 64), b64char (c mod 64)] @ b64enc rest"

definition utf8Bytes :: "string \<Rightarrow> nat list" where
  "utf8Bytes s = concat (map (\<lambda>c. let n = (of_char c :: nat)
                                  in if n < 128 then [n] else [192 + n div 64, 128 + n mod 64]) s)"

fun utf8Text :: "nat list \<Rightarrow> string" where
  \<comment> \<open>a byte sequence that is not a character up to U+00FF is shown as a question mark\<close>
  "utf8Text [] = []"
| "utf8Text [a] = [if a < 128 then char_of a else CHR ''?'']"
| "utf8Text (a # b # rest) =
     (if a < 128 then char_of a # utf8Text (b # rest)
      else if (a = 194 \<or> a = 195) \<and> 128 \<le> b \<and> b < 192
           then char_of ((a - 192) * 64 + (b - 128)) # utf8Text rest
      else CHR ''?'' # utf8Text (b # rest))"

fun indexOf :: "char \<Rightarrow> string \<Rightarrow> nat option" where
  "indexOf c [] = None"
| "indexOf c (x # xs) = (if c = x then Some 0 else map_option Suc (indexOf c xs))"

definition b64val :: "char \<Rightarrow> nat option" where
  "b64val c = (if c = CHR ''-'' then Some 62 else if c = CHR ''_'' then Some 63
               else indexOf c b64chars)"

fun b64dec :: "nat list \<Rightarrow> nat list" where
  "b64dec (a # b # c # d # rest) =
     [a * 4 + b div 16, (b mod 16) * 16 + c div 4, (c mod 4) * 64 + d] @ b64dec rest"
| "b64dec [a, b, c] = [a * 4 + b div 16, (b mod 16) * 16 + c div 4]"
| "b64dec [a, b] = [a * 4 + b div 16]"
| "b64dec _ = []"

definition refToBase64 :: "string \<Rightarrow> string" where
  "refToBase64 s = b64enc (utf8Bytes s)"

definition refFromBase64 :: "string \<Rightarrow> string" where
  "refFromBase64 s =
     utf8Text (b64dec (List.map_filter b64val (takeWhile (\<lambda>c. c \<noteq> CHR ''='') s)))"

definition refUrlSafeEncode :: "string \<Rightarrow> string" where
  "refUrlSafeEncode s =
     map (\<lambda>c. if c = CHR ''+'' then CHR ''-'' else if c = CHR ''/'' then CHR ''_'' else c)
       (filter (\<lambda>c. c \<noteq> CHR ''='') (refToBase64 s))"

definition refUrlSafeValidate :: "string \<Rightarrow> bool" where
  "refUrlSafeValidate s = (s \<noteq> [] \<and> list_all (\<lambda>c. c \<in> set (''-_'' @ take 62 b64chars)) s)"

definition uriUnreserved :: "char \<Rightarrow> bool" where
  "uriUnreserved c = (c \<in> set (''-_.!~*()'' @ [CHR 0x27] @ take 62 b64chars))"

definition refEncodeURIComponent :: "string \<Rightarrow> string" where
  "refEncodeURIComponent s =
     concat (map (\<lambda>c. if uriUnreserved c then [c]
                       else concat (map (\<lambda>b. [CHR ''%'', hexDigit (b div 16), hexDigit b])
                                      (utf8Bytes [c]))) s)"

definition hexVal :: "char \<Rightarrow> nat option" where
  "hexVal c = (case indexOf c ''0123456789ABCDEF'' of
                 Some n \<Rightarrow> Some n
               | None \<Rightarrow> map_option (\<lambda>n. n + 10) (indexOf c ''abcdef''))"

fun percentBytes :: "string \<Rightarrow> nat list option" where
  "percentBytes [] = Some []"
| "percentBytes (c # cs) =
     (if c = CHR ''%''
      then (case cs of
              h # l # rest \<Rightarrow>
                (case (hexVal h, hexVal l, percentBytes rest) of
                   (Some a, Some b, Some bs) \<Rightarrow> Some ((a * 16 + b) # bs)
                 | _ \<Rightarrow> None)
            | _ \<Rightarrow> None)
      else map_option (\<lambda>bs. utf8Bytes [c] @ bs) (percentBytes cs))"

definition refDecodeURIComponent :: "string \<Rightarrow> string option" where
  "refDecodeURIComponent s = map_option utf8Text (percentBytes s)"

fun splitLast :: "char \<Rightarrow> string \<Rightarrow> (string \<times> string) option" where
  \<comment> \<open>the text before and after the last occurrence of a character\<close>
  "splitLast c [] = None"
| "splitLast c (x # xs) =
     (case splitLast c xs of
        Some (a, b) \<Rightarrow> Some (x # a, b)
      | None \<Rightarrow> (if x = c then Some ([], xs) else None))"

fun afterSlashes :: "string \<Rightarrow> string" where
  \<comment> \<open>the text after the \<open>scheme://\<close>\<close>
  "afterSlashes [] = []"
| "afterSlashes (c # cs) = (if prefix ''://'' (c # cs) then drop 3 (c # cs) else afterSlashes cs)"

definition refParseQuery :: "string \<Rightarrow> (string \<times> jsval) list" where
  "refParseQuery search =
     (if search = [] then []
      else map (\<lambda>item. let k = takeWhile (\<lambda>c. c \<noteq> CHR ''='') item;
                            v = drop (Suc (length k)) item
                        in (k, JStr (case refDecodeURIComponent v of Some d \<Rightarrow> d | None \<Rightarrow> v)))
             (filter (\<lambda>item. item \<noteq> []) (split CHR ''&'' search)))"

definition refUrlParse :: "string \<Rightarrow> ParsedUrl" where
  "refUrlParse s =
     (let beforeHash = takeWhile (\<lambda>c. c \<noteq> CHR ''#'') s;
          hash = drop (length beforeHash) s;
          beforeQuery = takeWhile (\<lambda>c. c \<noteq> CHR ''?'') beforeHash;
          search = drop (Suc (length beforeQuery)) beforeHash;
          authority = takeWhile (\<lambda>c. c \<noteq> CHR ''/'') (afterSlashes beforeQuery);
          hostport = (case splitLast CHR ''@'' authority of Some (a, hp) \<Rightarrow> hp | None \<Rightarrow> authority);
          hp = splitLast CHR '':'' hostport
      in \<lparr> url_auth = (case splitLast CHR ''@'' authority of
                         Some (a, hp) \<Rightarrow> refDecodeURIComponent a
                       | None \<Rightarrow> None),
           url_hostname = (case hp of
                             Some (h, p) \<Rightarrow> (if h = [] then None else Some h)
                           | None \<Rightarrow> (if hostport = [] then None else Some hostport)),
           url_port = (case hp of Some (h, p) \<Rightarrow> (if p = [] then None else Some p) | None \<Rightarrow> None),
           url_hash = (if hash = [] then None else Some hash),
           url_query = refParseQuery search \<rparr>)"

fun strLess :: "string \<Rightarrow> string \<Rightarrow> bool" where
  "strLess [] [] = False"
| "strLess [] (y # ys) = True"
| "strLess (x # xs) [] = False"
| "strLess (x # xs) (y # ys) =
     ((of_char x :: nat) < of_char y \<or> (x = y \<and> strLess xs ys))"

fun insertKey :: "(string \<times> string) \<Rightarrow> (string \<times> string) list \<Rightarrow> (string \<times> string) list" where
  "insertKey kv [] = [kv]"
| "insertKey kv (x # xs) = (if strLess (fst kv) (fst x) then kv # x # xs else x # insertKey kv xs)"

definition refQueryStringify :: "bool \<Rightarrow> (string \<times> string) list \<Rightarrow> string" where
  "refQueryStringify sortKeys kvs =
     join ''&'' (map (\<lambda>kv. fst kv @ ''='' @ snd kv)
                   (if sortKeys then foldr insertKey kvs [] else kvs))"

definition exampleNumber :: "jsval \<Rightarrow> int option" where
  \<comment> \<open>\<open>Number\<close> on the values of the examples\<close>
  "exampleNumber v =
     (case v of
        JNum n \<Rightarrow> Some n
      | JStr s \<Rightarrow> (if s = ''2'' then Some 2 else if s = ''1'' then Some 1 else None)
      | JBool b \<Rightarrow> Some (if b then 1 else 0)
      | JNull \<Rightarrow> Some 0
      | _ \<Rightarrow> None)"

section \<open>Example data\<close>

definition exampleCandidates :: "NodeConfig list" where
  "exampleCandidates =
     [blankNode\<lparr>nodeName := ''X1''\<rparr>,
      blankNode\<lparr>nodeName := ''Y''\<rparr>,
      blankNode\<lparr>nodeName := ''X2'', enable := Some False\<rparr>,
      blankNode\<lparr>nodeName := ''X3''\<rparr>]"

definition onlyX :: "NodeConfig \<Rightarrow> bool" where
  "onlyX n = startsWith (nodeName n) ''X''"

definition exampleOptions :: ProxyGroupOptions where
  "exampleOptions = \<lparr> filterOpt = FPredicate onlyX, existingProxies = Some [''A'', ''B''],
     proxyTestUrl = None, proxyTestInterval = None \<rparr>"

definition exampleUnsupported :: "string list" where
  "exampleUnsupported = [''USER-AGENT'', ''PROCESS-NAME'']"

definition exampleJsonParse :: "string \<Rightarrow> jsval option" where
  \<comment> \<open>\<open>JSON.parse\<close> on the payloads of the examples: each name stands for the JSON text
      of the object beside it\<close>
  "exampleJsonParse s =
     (if s = ''ws-node'' then Some (JObj [(''v'', JStr ''2''), (''ps'', JStr ''one''), (''add'', JStr ''a.example''),
          (''port'', JStr ''443''), (''id'', JStr ''u-1''), (''net'', JStr ''ws''), (''tls'', JStr ''tls'')])
      else if s = ''kcp-node'' then Some (JObj [(''v'', JStr ''2''), (''ps'', JStr ''two''), (''add'', JStr ''b.example''),
          (''port'', JNum 80), (''id'', JStr ''u-2''), (''aid'', JNum 0), (''net'', JStr ''kcp''), (''tls'', JStr [])])
      else if s = ''tcp-node'' then Some (JObj [(''v'', JNum 2), (''ps'', JStr ''three''), (''add'', JStr ''c.example''),
          (''port'', JNum 8080), (''id'', JStr ''u-3''), (''aid'', JStr ''16''), (''net'', JStr ''tcp''),
          (''host'', JStr ''h.example''), (''path'', JStr ''/p''), (''tls'', JBool True)])
      else if s = ''old-node'' then Some (JObj [(''v'', JStr ''1''), (''ps'', JStr ''four''), (''net'', JStr ''kcp'')])
      else None)"

definition exampleLib :: Lib where
  "exampleLib = \<lparr>
     jsNumber = exampleNumber,
     jsonParse = exampleJsonParse,
     jsonStringify = refStringify,
     jsonStringifyPretty = refStringify,
     bufferToBase64 = refToBase64,
     bufferFromBase64 = refFromBase64,
     urlSafeEncode = refUrlSafeEncode,
     urlSafeValidate = refUrlSafeValidate,
     urlSafeDecode = refFromBase64,
     encodeURIComponent = refEncodeURIComponent,
     decodeURIComponent = refDecodeURIComponent,
     urlParse = refUrlParse,
     queryStringify = refQueryStringify,
     pathJoin = (\<lambda>a b. a @ ''/'' @ b),
     homedir = ''/home/user'',
     homeWritable = True,
     nodeEnvTest = False,
     formatVmessUri = (\<lambda>n. ''vmess://'' @ uuid n @ ''@'' @ hostname n @ '':'' @ port n),
     OBFS_UA = ''Mozilla/5.0'' \<rparr>"

definition exampleJsons :: "(string \<times> jsval) list list" where
  "exampleJsons =
     [[(''v'', JStr ''2''), (''ps'', JStr ''one''), (''add'', JStr ''a.example''),
          (''port'', JStr ''443''), (''id'', JStr ''u-1''), (''net'', JStr ''ws''), (''tls'', JStr ''tls'')],
      [(''v'', JStr ''2''), (''ps'', JStr ''two''), (''add'', JStr ''b.example''),
          (''port'', JNum 80), (''id'', JStr ''u-2''), (''aid'', JNum 0), (''net'', JStr ''kcp''), (''tls'', JStr [])],
      [(''v'', JNum 2), (''ps'', JStr ''three''), (''add'', JStr ''c.example''),
          (''port'', JNum 8080), (''id'', JStr ''u-3''), (''aid'', JStr ''16''), (''net'', JStr ''tcp''),
          (''host'', JStr ''h.example''), (''path'', JStr ''/p''), (''tls'', JBool True)]]"

definition exampleResponse :: string where
  \<comment> \<open>base64 of four lines: \<open>vmess://d3Mtbm9kZQ==\<close>, \<open>vmess://a2NwLW5vZGU=\<close>, \<open>ss://other\<close>
      and \<open>vmess://dGNwLW5vZGU=\<close>, whose payloads decode to \<open>ws-node\<close>, \<open>kcp-node\<close>, \<open>tcp-node\<close>\<close>
  "exampleResponse =
     ''dm1lc3M6Ly9kM010Ym05a1pRPT0Kdm1lc3M6Ly9hMk53TFc1dlpHVT0Kc3M6Ly9vdGhlcgp2bWVzczovL2RHTndMVzV2WkdVPQo=''"

definition exampleSS :: NodeConfig where
  "exampleSS = blankNode\<lparr> type := Shadowsocks, nodeName := ''S1'', hostname := ''s.example'',
     port := ''8388'', method' := ''aes-256-gcm'', password := ''pwd'' \<rparr>"

definition exampleVmess :: NodeConfig where
  "exampleVmess = blankNode\<lparr> type := Vmess, nodeName := ''V1'', hostname := ''v.example'',
     port := ''443'', method' := ''auto'', uuid := ''uuid-1'', alterId := ''0'',
     network := ''ws'', path := ''/ws'', tls := True \<rparr>"


definition exampleDisabled :: NodeConfig where
  "exampleDisabled = exampleVmess\<lparr> nodeName := ''V0'', enable := Some False \<rparr>"

definition injectDisabled :: "NodeConfig list \<Rightarrow> NodeConfig list" where
  \<comment> \<open>the \<open>filter\<close> operation of a composite filter that returns a node it was not given\<close>
  "injectDisabled nodes = [exampleDisabled]"

definition exampleMixed :: "NodeConfig list" where
  "exampleMixed = [exampleSS, exampleDisabled, exampleVmess]"



definition sip002Uri :: string where
  "sip002Uri = ''ss://YWVzLTI1Ni1nY206cHdk@1.2.3.4:8388#Test''"

definition sip002Reencoded :: string where
  "sip002Reencoded = ''ss://YWVzLTI1Ni1nY206cHdk@1.2.3.4:8388/?group=Surgio#Test''"

definition sip002Node :: "(string \<times> jsval) list" where
  "sip002Node = [(''type'', JEnum Shadowsocks), (''nodeName'', JStr ''Test''),
     (''hostname'', JStr ''1.2.3.4''), (''port'', JStr ''8388''),
     (''method'', JStr ''aes-256-gcm''), (''password'', JStr ''pwd'')]"

section \<open>Properties of the filter engine\<close>

lemma applyFilter_FPredicate:
  "applyFilter input (FPredicate p) = Inr (filter p (filter enabled input))"
  by (simp add: applyFilter_def conj_commute)

lemma count_list_filter_le: "count_list (filter P xs) x \<le> count_list xs x"
  by (induction xs) auto

text \<open>
  C2.  With a predicate \<open>p\<close>, \<open>applyFilter\<close> returns the input restricted to the nodes
  whose \<open>enable\<close> is not \<open>false\<close> and then restricted by \<open>p\<close>: the result is a
  subsequence of the input (same relative order) and no node occurs in it more often
  than in the input.
\<close>

theorem applyFilter_predicate_spec:
  "\<exists>out. applyFilter input (FPredicate p) = Inr out
        \<and> out = filter p (filter enabled input)
        \<and> subseq out input
        \<and> count_list out n \<le> count_list input n"
proof -
  let ?out = "filter p (filter enabled input)"
  have "subseq ?out input"
    by (metis subseq_filter_left subseq_order.order_trans)
  moreover have "count_list ?out n \<le> count_list input n"
    by (meson count_list_filter_le order_trans)
  ultimately show ?thesis
    by (simp add: applyFilter_FPredicate)
qed

text \<open>
  C3, as the code has it.  A truthy value that is neither a function nor an object with
  a \<open>filter\<close> function makes \<open>applyFilter\<close> fail with the invalid-filter error whatever
  the node list is; a falsy value (\<open>null\<close>, \<open>undefined\<close>, \<open>false\<close>, \<open>0\<close>, the empty
  string) passes the guard \<open>filter && !validateFilter(filter)\<close> and is treated as no
  filter: the enabled nodes are returned.
\<close>

theorem applyFilter_invalid_filter:
  "applyFilter nodeList (FOtherValue True) = Inl InvalidFilter
   \<and> applyFilter nodeList FNull = Inr (filter enabled nodeList)
   \<and> applyFilter nodeList (FOtherValue False) = Inr (filter enabled nodeList)
   \<and> applyFilter nodeList FUndefined = Inr (filter enabled nodeList)"
  by (simp add: applyFilter_def)

text \<open>
  C3 as stated fails: with \<open>null\<close> as the filter no error is raised, and a disabled node
  is dropped and an enabled one kept exactly as with no filter at all.
\<close>

theorem applyFilter_null_counterexample:
  "applyFilter [blankNode\<lparr>nodeName := ''A''\<rparr>, blankNode\<lparr>nodeName := ''B'', enable := Some False\<rparr>] FNull
     = Inr [blankNode\<lparr>nodeName := ''A''\<rparr>]"
  by (simp add: applyFilter_def enabled_def blankNode_def)

section \<open>Properties of the proxy-group builder\<close>

text \<open>
  C7.  Whenever the filter is accepted, the member list is \<open>existingProxies\<close> followed by
  the names of the filtered candidates when both \<open>existingProxies\<close> and a filter are
  given, \<open>existingProxies\<close> alone when it is given without a filter, and the names of the
  filtered candidates otherwise; \<open>url\<close> and \<open>interval\<close> are attached exactly for the
  types \<open>url-test\<close>, \<open>fallback\<close> and \<open>load-balance\<close>, never for \<open>select\<close>.  A call
  without \<open>options\<close> has neither \<open>existingProxies\<close> nor a filter: its members are the
  names of the enabled candidates.
\<close>

theorem generateClashProxyGroup_members:
  assumes "applyFilter nodeNameList (filterOpt opts) = Inr sel"
  shows "(\<exists>g. generateClashProxyGroup U I ruleName ruleType nodeNameList (Some opts) = Inr g
           \<and> pg_name g = ruleName \<and> pg_type g = ruleType
           \<and> proxies g =
               (case existingProxies opts of
                  Some existing \<Rightarrow>
                    (if truthyFilter (filterOpt opts) then existing @ map nodeName sel
                     else existing)
                | None \<Rightarrow> map nodeName sel)
           \<and> healthCheck g =
               (if ruleType = ''url-test'' \<or> ruleType = ''fallback'' \<or> ruleType = ''load-balance''
                then Some (proxyTestUrl opts, proxyTestInterval opts) else None)
           \<and> (ruleType = ''select'' \<longrightarrow> healthCheck g = None))
       \<and> (\<exists>g. generateClashProxyGroup U I ruleName ruleType nodeNameList None = Inr g
           \<and> proxies g = map nodeName (filter enabled nodeNameList)
           \<and> healthCheck g =
               (if ruleType = ''url-test'' \<or> ruleType = ''fallback'' \<or> ruleType = ''load-balance''
                then Some (Some U, Some I) else None))"
proof
  show "\<exists>g. generateClashProxyGroup U I ruleName ruleType nodeNameList (Some opts) = Inr g
           \<and> pg_name g = ruleName \<and> pg_type g = ruleType
           \<and> proxies g =
               (case existingProxies opts of
                  Some existing \<Rightarrow>
                    (if truthyFilter (filterOpt opts) then existing @ map nodeName sel
                     else existing)
                | None \<Rightarrow> map nodeName sel)
           \<and> healthCheck g =
               (if ruleType = ''url-test'' \<or> ruleType = ''fallback'' \<or> ruleType = ''load-balance''
                then Some (proxyTestUrl opts, proxyTestInterval opts) else None)
           \<and> (ruleType = ''select'' \<longrightarrow> healthCheck g = None)"
    using assms
    by (cases "existingProxies opts")
       (simp_all add: generateClashProxyGroup_def nodeNames_def)
  show "\<exists>g. generateClashProxyGroup U I ruleName ruleType nodeNameList None = Inr g
           \<and> proxies g = map nodeName (filter enabled nodeNameList)
           \<and> healthCheck g =
               (if ruleType = ''url-test'' \<or> ruleType = ''fallback'' \<or> ruleType = ''load-balance''
                then Some (Some U, Some I) else None)"
    by (simp add: generateClashProxyGroup_def nodeNames_def applyFilter_def)
qed

lemma exampleCandidates_filtered:
  "applyFilter exampleCandidates (filterOpt exampleOptions)
     = Inr [blankNode\<lparr>nodeName := ''X1''\<rparr>, blankNode\<lparr>nodeName := ''X3''\<rparr>]"
  by (simp add: applyFilter_def exampleCandidates_def exampleOptions_def onlyX_def
        startsWith_def enabled_def blankNode_def)

theorem generateClashProxyGroup_members_witness:
  "applyFilter exampleCandidates (filterOpt exampleOptions)
     = Inr [blankNode\<lparr>nodeName := ''X1''\<rparr>, blankNode\<lparr>nodeName := ''X3''\<rparr>]
   \<and> (\<exists>g. generateClashProxyGroup ''http://t/204'' 1200 ''G'' ''select'' exampleCandidates
              (Some exampleOptions) = Inr g
          \<and> proxies g = [''A'', ''B'', ''X1'', ''X3''] \<and> healthCheck g = None)"
proof -
  note h = exampleCandidates_filtered
  have "existingProxies exampleOptions = Some [''A'', ''B'']"
    and "truthyFilter (filterOpt exampleOptions)"
    by (simp_all add: exampleOptions_def)
  with generateClashProxyGroup_members [OF h, of "''http://t/204''" 1200 "''G''" "''select''"]
  have "\<exists>g. generateClashProxyGroup ''http://t/204'' 1200 ''G'' ''select'' exampleCandidates
              (Some exampleOptions) = Inr g
          \<and> proxies g = [''A'', ''B'', ''X1'', ''X3''] \<and> healthCheck g = None"
    by auto
  with h show ?thesis by blast
qed

section \<open>Properties of the Clash rule-line filter\<close>

text \<open>
  C9 at three lines that survive the drop and are not comments.  A \<open>,no-resolve\<close> suffix
  stays when the same text occurs earlier in the line, because \<open>replace\<close> removes the
  first occurrence; a \<open>//\<close> comment stays when a carriage return ends the line, because
  \<open>.\<close> does not match it and \<open>$\<close> matches at the end of the string only; and a line
  that is only a \<open>//\<close> comment comes out as \<open>-\<close>, without the prefix \<open>- \<close>.
\<close>

theorem clashFilter_failing_inputs:
  "clashFilter asciiUpper exampleUnsupported ''DOMAIN-SUFFIX,no-resolve.com,Proxy,no-resolve''
     = ''- DOMAIN-SUFFIX.com,Proxy,no-resolve''
   \<and> clashFilter asciiUpper exampleUnsupported (''DOMAIN,a.com,Proxy // note'' @ [CR])
     = ''- DOMAIN,a.com,Proxy // note''
   \<and> clashFilter asciiUpper exampleUnsupported ''// note'' = ''-''"
  by (simp add: clashFilter_def clashKeep_def clashLine_def exampleUnsupported_def
        asciiUpper_def startsWith_def trim_def trimStart_def trimEnd_def isWhiteSpace_def
        isLineTerminator_def LF_def CR_def)

section \<open>Properties of the V2RayN decoder\<close>

lemma decodeVmessLine_object:
  assumes "jsonParse lib (fromBase64 lib (replaceFirst ''vmess://'' [] item)) = Some (JObj json)"
    and "versionOk lib json"
  shows "decodeVmessLine lib item =
           Inr (if unsupportedNetwork json then Inl (vmessWarning json) else Inr (vmessNode json))"
  using assms by (simp add: decodeVmessLine_def)

lemma lefts_rights:
  "printed (map (\<lambda>j. if P j then Inl (f j) else Inr (g j)) js) = map f (filter P js)"
  "nonNull (map (\<lambda>j. if P j then Inl (f j) else Inr (g j)) js) = map g (filter (\<lambda>j. \<not> P j) js)"
  by (induction js) (auto simp add: printed_def nonNull_def)

lemma mapResult_zip:
  assumes "length xs = length js"
    and "\<And>i. i < length xs \<Longrightarrow> f (xs ! i) = Inr (h (js ! i))"
  shows "mapResult f xs = Inr (map h js)"
  using assms
proof (induction xs arbitrary: js)
  case Nil
  then show ?case by simp
next
  case (Cons x xs)
  then obtain j js' where js: "js = j # js'" by (cases js) auto
  from Cons.prems(2) [of 0] js have "f x = Inr (h j)" by simp
  moreover have "mapResult f xs = Inr (map h js')"
  proof (rule Cons.IH)
    show "length xs = length js'" using Cons.prems(1) js by simp
    fix i assume "i < length xs"
    with Cons.prems(2) [of "Suc i"] js show "f (xs ! i) = Inr (h (js' ! i))" by simp
  qed
  ultimately show ?case using js by simp
qed

lemma length_filter_split:
  "length (filter P xs) + length (filter (\<lambda>x. \<not> P x) xs) = length xs"
  by (induction xs) auto

text \<open>
  C6.  Take a payload in which every \<open>vmess://\<close> line decodes to a JSON object that
  passes the version check.  Then the decoder returns: one warning for each line whose
  \<open>net\<close> is \<open>kcp\<close> or \<open>http\<close>, and the nodes of all the other lines, in line order.
  Warnings and nodes together are as many as the \<open>vmess://\<close> lines, so as soon as one
  line is unsupported the output is strictly shorter than the line count and a warning
  has been printed.
\<close>

theorem getV2rayNSubscription_partial_failure:
  assumes parsed: "map (\<lambda>item. jsonParse lib (fromBase64 lib (replaceFirst ''vmess://'' [] item)))
                     (vmessLines lib response) = map (\<lambda>json. Some (JObj json)) jsons"
    and version: "list_all (versionOk lib) jsons"
  shows "getV2rayNSubscription lib response =
           Inr (map vmessWarning (filter unsupportedNetwork jsons),
                map vmessNode (filter (\<lambda>json. \<not> unsupportedNetwork json) jsons))
         \<and> length (filter unsupportedNetwork jsons)
             + length (filter (\<lambda>json. \<not> unsupportedNetwork json) jsons)
             = length (vmessLines lib response)
         \<and> (list_ex unsupportedNetwork jsons \<longrightarrow>
              length (map vmessNode (filter (\<lambda>json. \<not> unsupportedNetwork json) jsons))
                < length (vmessLines lib response)
              \<and> map vmessWarning (filter unsupportedNetwork jsons) \<noteq> [])"
proof -
  let ?lines = "vmessLines lib response"
  let ?h = "\<lambda>json. if unsupportedNetwork json then Inl (vmessWarning json) else Inr (vmessNode json)"
  from parsed have len: "length ?lines = length jsons"
    by (metis length_map)
  have step: "decodeVmessLine lib (?lines ! i) = Inr (?h (jsons ! i))"
    if "i < length ?lines" for i
  proof (rule decodeVmessLine_object)
    from that len have "map (\<lambda>item. jsonParse lib (fromBase64 lib (replaceFirst ''vmess://'' [] item))) ?lines ! i
        = map (\<lambda>json. Some (JObj json)) jsons ! i"
      using parsed by simp
    with that len show "jsonParse lib (fromBase64 lib (replaceFirst ''vmess://'' [] (?lines ! i))) = Some (JObj (jsons ! i))"
      by simp
    from version that len show "versionOk lib (jsons ! i)"
      by (simp add: list_all_length)
  qed
  have "mapResult (decodeVmessLine lib) ?lines = Inr (map ?h jsons)"
    using len step by (rule mapResult_zip)
  then have 1: "getV2rayNSubscription lib response =
           Inr (map vmessWarning (filter unsupportedNetwork jsons),
                map vmessNode (filter (\<lambda>json. \<not> unsupportedNetwork json) jsons))"
    by (simp add: getV2rayNSubscription_def lefts_rights)
  have 2: "length (filter unsupportedNetwork jsons)
             + length (filter (\<lambda>json. \<not> unsupportedNetwork json) jsons) = length ?lines"
    using len by (simp add: length_filter_split)
  have 3: "length (map vmessNode (filter (\<lambda>json. \<not> unsupportedNetwork json) jsons)) < length ?lines
           \<and> map vmessWarning (filter unsupportedNetwork jsons) \<noteq> []"
    if "list_ex unsupportedNetwork jsons"
  proof -
    from that have ne: "filter unsupportedNetwork jsons \<noteq> []"
      by (simp add: list_ex_iff filter_empty_conv)
    then have "1 \<le> length (filter unsupportedNetwork jsons)"
      by (cases "filter unsupportedNetwork jsons") simp_all
    with 2 have "length (filter (\<lambda>json. \<not> unsupportedNetwork json) jsons) < length ?lines"
      by linarith
    with ne show ?thesis by simp
  qed
  from 1 2 3 show ?thesis by blast
qed


theorem getV2rayNSubscription_partial_failure_witness:
  "map (\<lambda>item. jsonParse exampleLib (fromBase64 exampleLib (replaceFirst ''vmess://'' [] item)))
       (vmessLines exampleLib exampleResponse)
     = map (\<lambda>json. Some (JObj json)) exampleJsons
   \<and> list_all (versionOk exampleLib) exampleJsons
   \<and> list_ex unsupportedNetwork exampleJsons
   \<and> length (vmessLines exampleLib exampleResponse) = 3
   \<and> (\<exists>nodes. getV2rayNSubscription exampleLib exampleResponse
          = Inr ([UnsupportedVmessNetwork (JStr ''kcp'') (JStr ''two'')], nodes)
        \<and> length nodes = 2)"
proof -
  have lines: "vmessLines exampleLib exampleResponse
                 = [''vmess://d3Mtbm9kZQ=='', ''vmess://a2NwLW5vZGU='', ''vmess://dGNwLW5vZGU='']"
    by code_simp
  have a: "map (\<lambda>item. jsonParse exampleLib (fromBase64 exampleLib (replaceFirst ''vmess://'' [] item)))
       (vmessLines exampleLib exampleResponse) = map (\<lambda>json. Some (JObj json)) exampleJsons"
    unfolding lines by code_simp
  have b: "list_all (versionOk exampleLib) exampleJsons"
    by code_simp
  have c: "list_ex unsupportedNetwork exampleJsons"
    by (simp add: exampleJsons_def unsupportedNetwork_def getProp_def)
  have d: "map vmessWarning (filter unsupportedNetwork exampleJsons)
             = [UnsupportedVmessNetwork (JStr ''kcp'') (JStr ''two'')]"
    by (simp add: exampleJsons_def unsupportedNetwork_def vmessWarning_def getProp_def)
  have e: "length (map vmessNode (filter (\<lambda>json. \<not> unsupportedNetwork json) exampleJsons)) = 2"
    by (simp add: exampleJsons_def unsupportedNetwork_def getProp_def)
  from getV2rayNSubscription_partial_failure [OF a b]
  have "getV2rayNSubscription exampleLib exampleResponse =
           Inr (map vmessWarning (filter unsupportedNetwork exampleJsons),
                map vmessNode (filter (\<lambda>json. \<not> unsupportedNetwork json) exampleJsons))"
    by (rule conjunct1)
  with d e have "\<exists>nodes. getV2rayNSubscription exampleLib exampleResponse
          = Inr ([UnsupportedVmessNetwork (JStr ''kcp'') (JStr ''two'')], nodes)
        \<and> length nodes = 2"
    by (simp only: sum.inject prod.inject simp_thms ex_simps)
  moreover have "length (vmessLines exampleLib exampleResponse) = 3"
    by (simp only: lines) simp
  ultimately show ?thesis using a b c by blast
qed

text \<open>
  C10.  A line that the decoder accepts decodes to a JSON object, and the node produced
  has \<open>alterId\<close> equal to \<open>aid\<close> when that is truthy and to the string \<open>0\<close> otherwise
  (so also when \<open>aid\<close> is absent), \<open>host\<close> the empty string when absent, \<open>path\<close>
  the string \<open>/\<close> when absent, and \<open>tls\<close> true exactly when the JSON field \<open>tls\<close> is
  the string \<open>tls\<close>.
\<close>

theorem decodeVmessLine_defaults:
  assumes "decodeVmessLine lib item = Inr (Inr node)"
  shows "\<exists>json. jsonParse lib (fromBase64 lib (replaceFirst ''vmess://'' [] item)) = Some (JObj json)
           \<and> getProp node ''alterId''
               = (if truthy (getProp json ''aid'') then getProp json ''aid'' else JStr ''0'')
           \<and> (getProp json ''aid'' = JUndefined \<longrightarrow> getProp node ''alterId'' = JStr ''0'')
           \<and> (getProp json ''host'' = JUndefined \<longrightarrow> getProp node ''host'' = JStr [])
           \<and> (getProp json ''path'' = JUndefined \<longrightarrow> getProp node ''path'' = JStr ''/'')
           \<and> getProp node ''tls'' = JBool (getProp json ''tls'' = JStr ''tls'')"
proof -
  from assms obtain parsed where p: "jsonParse lib (fromBase64 lib (replaceFirst ''vmess://'' [] item)) = Some parsed"
    by (auto simp add: decodeVmessLine_def split: option.splits)
  define json where "json = (case parsed of JObj ps \<Rightarrow> ps | _ \<Rightarrow> [])"
  from assms p have ok: "versionOk lib json" and node: "node = vmessNode json"
    by (auto simp add: decodeVmessLine_def json_def Let_def split: jsval.splits if_splits)
  have "\<not> versionOk lib []"
    by (simp add: versionOk_def getProp_def)
  with ok have "parsed = JObj json"
    by (cases parsed) (auto simp add: json_def)
  with p have "jsonParse lib (fromBase64 lib (replaceFirst ''vmess://'' [] item)) = Some (JObj json)"
    by simp
  moreover have "getProp node ''alterId''
               = (if truthy (getProp json ''aid'') then getProp json ''aid'' else JStr ''0'')"
    by (simp add: node vmessNode_def getProp_def jsOr_def)
  moreover have "getProp json ''aid'' = JUndefined \<longrightarrow> getProp node ''alterId'' = JStr ''0''"
    by (simp add: node vmessNode_def getProp_def jsOr_def)
  moreover have "getProp json ''host'' = JUndefined \<longrightarrow> getProp node ''host'' = JStr []"
    by (simp add: node vmessNode_def getProp_def jsOr_def)
  moreover have "getProp json ''path'' = JUndefined \<longrightarrow> getProp node ''path'' = JStr ''/''"
    by (simp add: node vmessNode_def getProp_def jsOr_def)
  moreover have "getProp node ''tls'' = JBool (getProp json ''tls'' = JStr ''tls'')"
    by (simp add: node vmessNode_def getProp_def)
  ultimately show ?thesis by blast
qed

lemma exampleLine_accepted:
  "decodeVmessLine exampleLib ''vmess://d3Mtbm9kZQ=='' = Inr (Inr (vmessNode (hd exampleJsons)))"
  by code_simp

theorem decodeVmessLine_defaults_witness:
  "decodeVmessLine exampleLib ''vmess://d3Mtbm9kZQ==''
     = Inr (Inr (vmessNode (hd exampleJsons)))
   \<and> getProp (hd exampleJsons) ''aid'' = JUndefined
   \<and> getProp (hd exampleJsons) ''host'' = JUndefined
   \<and> getProp (hd exampleJsons) ''path'' = JUndefined
   \<and> getProp (hd exampleJsons) ''tls'' = JStr ''tls''
   \<and> getProp (vmessNode (hd exampleJsons)) ''alterId'' = JStr ''0''
   \<and> getProp (vmessNode (hd exampleJsons)) ''host'' = JStr []
   \<and> getProp (vmessNode (hd exampleJsons)) ''path'' = JStr ''/''
   \<and> getProp (vmessNode (hd exampleJsons)) ''tls'' = JBool True"
proof -
  have parse: "jsonParse exampleLib (fromBase64 exampleLib (replaceFirst ''vmess://'' [] ''vmess://d3Mtbm9kZQ==''))
                 = Some (JObj (hd exampleJsons))"
    by code_simp
  have absent: "getProp (hd exampleJsons) ''aid'' = JUndefined"
     "getProp (hd exampleJsons) ''host'' = JUndefined"
     "getProp (hd exampleJsons) ''path'' = JUndefined"
     "getProp (hd exampleJsons) ''tls'' = JStr ''tls''"
    by (simp_all add: exampleJsons_def getProp_def)
  from decodeVmessLine_defaults [OF exampleLine_accepted] parse
  have "getProp (vmessNode (hd exampleJsons)) ''alterId''
               = (if truthy (getProp (hd exampleJsons) ''aid'') then getProp (hd exampleJsons) ''aid'' else JStr ''0'')
     \<and> (getProp (hd exampleJsons) ''host'' = JUndefined \<longrightarrow> getProp (vmessNode (hd exampleJsons)) ''host'' = JStr [])
     \<and> (getProp (hd exampleJsons) ''path'' = JUndefined \<longrightarrow> getProp (vmessNode (hd exampleJsons)) ''path'' = JStr ''/'')
     \<and> getProp (vmessNode (hd exampleJsons)) ''tls'' = JBool (getProp (hd exampleJsons) ''tls'' = JStr ''tls'')"
    by auto
  with absent exampleLine_accepted show ?thesis by simp
qed

section \<open>Properties of the serializers\<close>

lemma applyFilter_selects_enabled:
  assumes sel: "\<forall>g. flt = FComposite g \<longrightarrow> (\<forall>xs. set (g xs) \<subseteq> set xs)"
    and res: "applyFilter list flt = Inr chosen"
  shows "set chosen \<subseteq> {n \<in> set list. enabled n}"
proof (cases flt)
  case (FComposite g)
  with res have "chosen = g (filter enabled list)"
    by (simp add: applyFilter_def)
  moreover from sel FComposite have "set (g (filter enabled list)) \<subseteq> set (filter enabled list)"
    by blast
  ultimately show ?thesis by auto
qed (use res in \<open>auto simp add: applyFilter_def split: if_splits\<close>)

lemma nonNullStrings_disabled:
  assumes "\<And>n. \<not> enabled n \<Longrightarrow> f n = None"
  shows "nonNullStrings (map f (filter enabled list)) = nonNullStrings (map f list)"
  using assms by (induction list) (auto simp add: nonNullStrings_def)

lemma truthyStrings_disabled:
  assumes "\<And>n. \<not> enabled n \<Longrightarrow> f n = None"
  shows "truthyStrings (map f (filter enabled list)) = truthyStrings (map f list)"
  using assms by (induction list) (auto simp add: truthyStrings_def)

lemma nonNullValues_disabled:
  assumes "\<And>n. \<not> enabled n \<Longrightarrow> f n = None"
  shows "nonNullValues (map f (filter enabled list)) = nonNullValues (map f list)"
  using assms by (induction list) (auto simp add: nonNullValues_def)

lemma disabled_maps_to_null:
  assumes "\<not> enabled n"
  shows "shadowsocksUri lib g n = None" and "shadowsocksrUri lib g n = None"
    and "v2rayNUri lib n = None" and "shadowsocksJSONNode lib n = None"
    and "clashNode n = None"
  using assms
  by (simp_all add: enabled_def shadowsocksUri_def shadowsocksrUri_def v2rayNUri_def
        shadowsocksJSONNode_def clashNode_def)

lemma filtered_serializers:
  assumes "applyFilter list flt = Inr chosen"
  shows "getSurgeNodes lib list flt =
           (case mapResult (surgeNode lib) chosen of
              Inl e \<Rightarrow> Inl e
            | Inr rs \<Rightarrow> Inr (join [LF] (nonNullStrings (map fst rs)), concat (map snd rs)))"
    and "getMellowNodes lib list flt = Inr (join [LF] (truthyStrings (map (mellowNode lib) chosen)))"
    and "getQuantumultNodes lib list groupName flt =
           Inr (join [LF] (truthyStrings
                  (map (quantumultNode lib (case groupName of None \<Rightarrow> ''Surgio'' | Some g \<Rightarrow> g)) chosen)))"
    and "getQuantumultXNodes list flt = Inr (join [LF] (truthyStrings (map quantumultXNode chosen)))"
    and "getClashNodes list flt = Inr (nonNullValues (map clashNode (filter enabled chosen)))"
proof -
  show "getClashNodes list flt = Inr (nonNullValues (map clashNode (filter enabled chosen)))"
    using assms nonNullValues_disabled [of clashNode chosen, OF disabled_maps_to_null(5)]
    by (simp add: getClashNodes_def)
qed (use assms in \<open>simp_all add: getSurgeNodes_def getMellowNodes_def getQuantumultNodes_def
       getQuantumultXNodes_def\<close>)

lemma rejected_filter:
  assumes "applyFilter list flt = Inl e"
  shows "getSurgeNodes lib list flt = Inl e" and "getMellowNodes lib list flt = Inl e"
    and "getQuantumultNodes lib list groupName flt = Inl e"
    and "getQuantumultXNodes list flt = Inl e" and "getClashNodes list flt = Inl e"
  using assms
  by (simp_all add: getSurgeNodes_def getMellowNodes_def getQuantumultNodes_def
        getQuantumultXNodes_def getClashNodes_def)

lemma unfiltered_serializers:
  "getV2rayNNodes lib list = join [LF] (truthyStrings (map (v2rayNUri lib) (filter enabled list)))"
  "getShadowsocksNodes lib list groupName =
     join [LF] (truthyStrings
       (map (shadowsocksUri lib (case groupName of None \<Rightarrow> ''Surgio'' | Some g \<Rightarrow> g))
          (filter enabled list)))"
  "getShadowsocksrNodes lib list ssrGroup =
     join [LF] (nonNullStrings (map (shadowsocksrUri lib ssrGroup) (filter enabled list)))"
  "getShadowsocksNodesJSON lib list =
     jsonStringifyPretty lib (JArr (nonNullValues (map (shadowsocksJSONNode lib) (filter enabled list))))"
proof -
  show "getV2rayNNodes lib list = join [LF] (truthyStrings (map (v2rayNUri lib) (filter enabled list)))"
    unfolding getV2rayNNodes_def
    by (rule arg_cong [where f = "join [LF]"], rule sym, rule truthyStrings_disabled)
       (rule disabled_maps_to_null)
  show "getShadowsocksNodes lib list groupName =
     join [LF] (truthyStrings
       (map (shadowsocksUri lib (case groupName of None \<Rightarrow> ''Surgio'' | Some g \<Rightarrow> g))
          (filter enabled list)))"
    unfolding getShadowsocksNodes_def Let_def
    by (rule arg_cong [where f = "join [LF]"], rule sym, rule truthyStrings_disabled)
       (rule disabled_maps_to_null)
  show "getShadowsocksrNodes lib list ssrGroup =
     join [LF] (nonNullStrings (map (shadowsocksrUri lib ssrGroup) (filter enabled list)))"
    unfolding getShadowsocksrNodes_def
    by (rule arg_cong [where f = "join [LF]"], rule sym, rule nonNullStrings_disabled)
       (rule disabled_maps_to_null)
  show "getShadowsocksNodesJSON lib list =
     jsonStringifyPretty lib (JArr (nonNullValues (map (shadowsocksJSONNode lib) (filter enabled list))))"
    unfolding getShadowsocksNodesJSON_def
    by (rule arg_cong [where f = "\<lambda>vs. jsonStringifyPretty lib (JArr vs)"], rule sym,
        rule nonNullValues_disabled)
       (rule disabled_maps_to_null)
qed

text \<open>
  C1, as the code has it.  Let the filter be absent, a predicate, or a composite whose
  \<open>filter\<close> operation returns only nodes it was given.  Then every node that
  \<open>applyFilter\<close> hands on is a node of the list whose \<open>enable\<close> is not \<open>false\<close>.  The
  output of the Surge, Mellow, Quantumult and Quantumult X serializers is made from
  exactly the nodes that \<open>applyFilter\<close> hands on, and there is no output when the filter
  is rejected.  The Clash output is made from the enabled ones among those nodes, whatever
  a composite filter returns.  The V2RayN, Shadowsocks URI, ShadowsocksR URI and
  Shadowsocks JSON serializers take no filter, and their output is made from the nodes
  of the list that are not disabled.
\<close>

theorem disabled_nodes_absent:
  "((\<forall>g. flt = FComposite g \<longrightarrow> (\<forall>xs. set (g xs) \<subseteq> set xs)) \<longrightarrow>
      (\<forall>chosen. applyFilter list flt = Inr chosen \<longrightarrow>
         (\<forall>n \<in> set chosen. n \<in> set list \<and> enable n \<noteq> Some False)))
   \<and> (\<forall>chosen. applyFilter list flt = Inr chosen \<longrightarrow>
         getSurgeNodes lib list flt =
           (case mapResult (surgeNode lib) chosen of
              Inl e \<Rightarrow> Inl e
            | Inr rs \<Rightarrow> Inr (join [LF] (nonNullStrings (map fst rs)), concat (map snd rs)))
       \<and> getMellowNodes lib list flt = Inr (join [LF] (truthyStrings (map (mellowNode lib) chosen)))
       \<and> getQuantumultNodes lib list groupName flt =
           Inr (join [LF] (truthyStrings
                  (map (quantumultNode lib (case groupName of None \<Rightarrow> ''Surgio'' | Some g \<Rightarrow> g)) chosen)))
       \<and> getQuantumultXNodes list flt = Inr (join [LF] (truthyStrings (map quantumultXNode chosen)))
       \<and> getClashNodes list flt = Inr (nonNullValues (map clashNode (filter enabled chosen))))
   \<and> (\<forall>e. applyFilter list flt = Inl e \<longrightarrow>
         getSurgeNodes lib list flt = Inl e \<and> getMellowNodes lib list flt = Inl e
       \<and> getQuantumultNodes lib list groupName flt = Inl e
       \<and> getQuantumultXNodes list flt = Inl e \<and> getClashNodes list flt = Inl e)
   \<and> getV2rayNNodes lib list = join [LF] (truthyStrings (map (v2rayNUri lib) (filter enabled list)))
   \<and> getShadowsocksNodes lib list groupName =
       join [LF] (truthyStrings
         (map (shadowsocksUri lib (case groupName of None \<Rightarrow> ''Surgio'' | Some g \<Rightarrow> g))
            (filter enabled list)))
   \<and> getShadowsocksrNodes lib list ssrGroup =
       join [LF] (nonNullStrings (map (shadowsocksrUri lib ssrGroup) (filter enabled list)))
   \<and> getShadowsocksNodesJSON lib list =
       jsonStringifyPretty lib (JArr (nonNullValues (map (shadowsocksJSONNode lib) (filter enabled list))))"
proof -
  have 1: "(\<forall>g. flt = FComposite g \<longrightarrow> (\<forall>xs. set (g xs) \<subseteq> set xs)) \<longrightarrow>
      (\<forall>chosen. applyFilter list flt = Inr chosen \<longrightarrow>
         (\<forall>n \<in> set chosen. n \<in> set list \<and> enable n \<noteq> Some False))"
  proof (intro allI impI ballI)
    fix chosen n
    assume sel: "\<forall>g. flt = FComposite g \<longrightarrow> (\<forall>xs. set (g xs) \<subseteq> set xs)"
      and r: "applyFilter list flt = Inr chosen" and n: "n \<in> set chosen"
    have "set chosen \<subseteq> {n \<in> set list. enabled n}"
      using sel r by (rule applyFilter_selects_enabled)
    with n show "n \<in> set list \<and> enable n \<noteq> Some False"
      by (auto simp add: enabled_def)
  qed
  have 2: "\<forall>chosen. applyFilter list flt = Inr chosen \<longrightarrow>
         getSurgeNodes lib list flt =
           (case mapResult (surgeNode lib) chosen of
              Inl e \<Rightarrow> Inl e
            | Inr rs \<Rightarrow> Inr (join [LF] (nonNullStrings (map fst rs)), concat (map snd rs)))
       \<and> getMellowNodes lib list flt = Inr (join [LF] (truthyStrings (map (mellowNode lib) chosen)))
       \<and> getQuantumultNodes lib list groupName flt =
           Inr (join [LF] (truthyStrings
                  (map (quantumultNode lib (case groupName of None \<Rightarrow> ''Surgio'' | Some g \<Rightarrow> g)) chosen)))
       \<and> getQuantumultXNodes list flt = Inr (join [LF] (truthyStrings (map quantumultXNode chosen)))
       \<and> getClashNodes list flt = Inr (nonNullValues (map clashNode (filter enabled chosen)))"
    using filtered_serializers [of list flt] by blast
  have 3: "\<forall>e. applyFilter list flt = Inl e \<longrightarrow>
         getSurgeNodes lib list flt = Inl e \<and> getMellowNodes lib list flt = Inl e
       \<and> getQuantumultNodes lib list groupName flt = Inl e
       \<and> getQuantumultXNodes list flt = Inl e \<and> getClashNodes list flt = Inl e"
    using rejected_filter [of list flt] by blast
  from 1 2 3 unfiltered_serializers show ?thesis
    by (intro conjI)
qed

theorem disabled_nodes_absent_witness:
  "(\<forall>xs :: NodeConfig list. set (rev xs) \<subseteq> set xs)
   \<and> enable exampleDisabled = Some False
   \<and> applyFilter exampleMixed (FComposite rev) = Inr [exampleVmess, exampleSS]
   \<and> getQuantumultXNodes exampleMixed (FComposite rev)
       = Inr (join [LF] (truthyStrings (map quantumultXNode [exampleVmess, exampleSS])))
   \<and> getQuantumultXNodes exampleMixed (FComposite rev)
       = Inr (''vmess=v.example:443, method=chacha20-ietf-poly1305, password=uuid-1, udp-relay=true, obfs=wss, obfs-uri=/ws, obfs-host=v.example, tag=V1''
              @ [LF] @ ''shadowsocks=s.example:8388, method=aes-256-gcm, password=pwd, tag=S1'')
   \<and> getClashNodes exampleMixed (FComposite injectDisabled) = Inr []
   \<and> getV2rayNNodes exampleLib exampleMixed
       = join [LF] (truthyStrings (map (v2rayNUri exampleLib) [exampleSS, exampleVmess]))"
proof -
  note t = disabled_nodes_absent [of _ exampleMixed exampleLib None "''G''"]
  have en: "filter enabled exampleMixed = [exampleSS, exampleVmess]"
    by (simp add: exampleMixed_def enabled_def exampleSS_def exampleVmess_def exampleDisabled_def
          blankNode_def)
  have dis: "enable exampleDisabled = Some False"
    by (simp add: exampleDisabled_def)
  have sel: "\<forall>xs :: NodeConfig list. set (rev xs) \<subseteq> set xs"
    by simp
  have ch: "applyFilter exampleMixed (FComposite rev) = Inr [exampleVmess, exampleSS]"
    by (simp add: applyFilter_def en)
  have inj: "applyFilter exampleMixed (FComposite injectDisabled) = Inr [exampleDisabled]"
    by (simp add: applyFilter_def injectDisabled_def)
  from t [of "FComposite rev"] ch
  have qx: "getQuantumultXNodes exampleMixed (FComposite rev)
       = Inr (join [LF] (truthyStrings (map quantumultXNode [exampleVmess, exampleSS])))"
    by blast
  have out: "join [LF] (truthyStrings (map quantumultXNode [exampleVmess, exampleSS]))
       = ''vmess=v.example:443, method=chacha20-ietf-poly1305, password=uuid-1, udp-relay=true, obfs=wss, obfs-uri=/ws, obfs-host=v.example, tag=V1''
              @ [LF] @ ''shadowsocks=s.example:8388, method=aes-256-gcm, password=pwd, tag=S1''"
    by code_simp
  from t [of "FComposite injectDisabled"] inj
  have "getClashNodes exampleMixed (FComposite injectDisabled)
          = Inr (nonNullValues (map clashNode (filter enabled [exampleDisabled])))"
    by blast
  then have cl: "getClashNodes exampleMixed (FComposite injectDisabled) = Inr []"
    by (simp add: enabled_def dis nonNullValues_def)
  from t [of FUndefined] en
  have v: "getV2rayNNodes exampleLib exampleMixed
       = join [LF] (truthyStrings (map (v2rayNUri exampleLib) [exampleSS, exampleVmess]))"
    by simp
  from sel dis ch qx out cl v show ?thesis by simp
qed

text \<open>
  C1 as stated fails for a composite filter whose operation returns a node it was not
  given: the disabled node \<open>V0\<close> of the list is serialized by Quantumult X.
\<close>

theorem composite_filter_counterexample:
  "enable exampleDisabled = Some False
   \<and> exampleDisabled \<in> set [exampleSS, exampleDisabled]
   \<and> getQuantumultXNodes [exampleSS, exampleDisabled] (FComposite injectDisabled)
       = Inr ''vmess=v.example:443, method=chacha20-ietf-poly1305, password=uuid-1, udp-relay=true, obfs=wss, obfs-uri=/ws, obfs-host=v.example, tag=V0''"
  by code_simp

lemma flagTokens_append: "flagTokens key (a @ b) = flagTokens key a @ flagTokens key b"
  by (simp add: flagTokens_def)

lemma flagTokens_flag:
  "flagTokens key (flag key' v) = (if key = key' then flag key v else
     (case v of None \<Rightarrow> [] | Some b \<Rightarrow> (if prefix (key @ ''='') (key' @ ''='' @ boolText b)
                                        then [key' @ ''='' @ boolText b] else [])))"
  by (simp add: flagTokens_def flag_def split: option.splits)














text \<open>
  C5 at a VMess node whose \<open>udp\<close> is \<open>false\<close>: the Quantumult X line carries
  \<open>udp-relay=true\<close>, since \<open>nodeConfig.udp || true\<close> is \<open>true\<close> for every value of
  \<open>udp\<close>.
\<close>

theorem quantumultX_vmess_udp_false:
  "udp (exampleVmess\<lparr>udp := Some False\<rparr>) = Some False
   \<and> getQuantumultXNodes [exampleVmess\<lparr>udp := Some False\<rparr>] FUndefined
       = Inr ''vmess=v.example:443, method=chacha20-ietf-poly1305, password=uuid-1, udp-relay=true, obfs=wss, obfs-uri=/ws, obfs-host=v.example, tag=V1''"
  by code_simp

section \<open>Properties of the Shadowsocks codec\<close>

text \<open>
  C8.  Let the platform library behave on the texts involved as the platform does:
  URL-safe base64 maps \<open>aes-256-gcm:pwd\<close> to \<open>YWVzLTI1Ni1nY206cHdk\<close> and back, the URI
  component codec leaves \<open>Test\<close> and \<open>Surgio\<close> unchanged, the query \<open>{group: 'Surgio'}\<close>
  prints as \<open>group=Surgio\<close>, and the URL parser splits the two URIs into their parts.
  Then the subscription decoder turns the URI into a node, the Shadowsocks URI encoder
  turns that node into \<open>ss://YWVzLTI1Ni1nY206cHdk@1.2.3.4:8388/?group=Surgio#Test\<close>, and
  decoding this URI again gives a node with the same method, password, hostname, port and
  node name: \<open>aes-256-gcm\<close>, \<open>pwd\<close>, \<open>1.2.3.4\<close>, \<open>8388\<close> and \<open>Test\<close>.
\<close>

theorem sip002_round_trip:
  assumes enc: "urlSafeEncode lib ''aes-256-gcm:pwd'' = ''YWVzLTI1Ni1nY206cHdk''"
    and valid: "urlSafeValidate lib ''YWVzLTI1Ni1nY206cHdk''"
    and dec: "urlSafeDecode lib ''YWVzLTI1Ni1nY206cHdk'' = ''aes-256-gcm:pwd''"
    and encName: "encodeURIComponent lib ''Test'' = ''Test''"
    and encGroup: "encodeURIComponent lib ''Surgio'' = ''Surgio''"
    and decName: "decodeURIComponent lib ''Test'' = Some ''Test''"
    and query: "queryStringify lib False [(''group'', ''Surgio'')] = ''group=Surgio''"
    and parse0: "urlParse lib sip002Uri =
        \<lparr> url_auth = Some ''YWVzLTI1Ni1nY206cHdk'', url_hostname = Some ''1.2.3.4'',
          url_port = Some ''8388'', url_hash = Some ''#Test'', url_query = [] \<rparr>"
    and parse1: "urlParse lib sip002Reencoded =
        \<lparr> url_auth = Some ''YWVzLTI1Ni1nY206cHdk'', url_hostname = Some ''1.2.3.4'',
          url_port = Some ''8388'', url_hash = Some ''#Test'',
          url_query = [(''group'', JStr ''Surgio'')] \<rparr>"
    and body0: "fromBase64 lib response = sip002Uri"
    and body1: "fromBase64 lib response' = sip002Reencoded"
  shows "\<exists>node config node'.
           getShadowsocksSubscription lib None response = Inr [node]
         \<and> asShadowsocksNodeConfig node = Some config
         \<and> getShadowsocksNodes lib [config] None = sip002Reencoded
         \<and> getShadowsocksSubscription lib None response' = Inr [node']
         \<and> getProp node' ''method'' = JStr ''aes-256-gcm'' \<and> getProp node' ''method'' = getProp node ''method''
         \<and> getProp node' ''password'' = JStr ''pwd'' \<and> getProp node' ''password'' = getProp node ''password''
         \<and> getProp node' ''hostname'' = JStr ''1.2.3.4'' \<and> getProp node' ''hostname'' = getProp node ''hostname''
         \<and> getProp node' ''port'' = JStr ''8388'' \<and> getProp node' ''port'' = getProp node ''port''
         \<and> getProp node' ''nodeName'' = JStr ''Test'' \<and> getProp node' ''nodeName'' = getProp node ''nodeName''"
proof -
  have userInfo: "split CHR '':'' (fromUrlSafeBase64 lib ''YWVzLTI1Ni1nY206cHdk'') = [''aes-256-gcm'', ''pwd'']"
    by (simp add: fromUrlSafeBase64_def valid dec)
  have d0: "decodeShadowsocksUri lib None sip002Uri = Inr sip002Node"
    by (simp add: decodeShadowsocksUri_def parse0 userInfo decName getProp_def spread_def
          optJs_def sip002Node_def)
  have d1: "decodeShadowsocksUri lib None sip002Reencoded = Inr sip002Node"
    by (simp add: decodeShadowsocksUri_def parse1 userInfo decName getProp_def spread_def
          optJs_def sip002Node_def)
  have l0: "filter (\<lambda>item. item \<noteq> [] \<and> startsWith item ''ss://'') (split LF sip002Uri) = [sip002Uri]"
    by (simp add: sip002Uri_def startsWith_def LF_def)
  have l1: "filter (\<lambda>item. item \<noteq> [] \<and> startsWith item ''ss://'') (split LF sip002Reencoded)
              = [sip002Reencoded]"
    by (simp add: sip002Reencoded_def startsWith_def LF_def)
  have s0: "getShadowsocksSubscription lib None response = Inr [sip002Node]"
    by (simp add: getShadowsocksSubscription_def body0 l0 d0)
  have s1: "getShadowsocksSubscription lib None response' = Inr [sip002Node]"
    by (simp add: getShadowsocksSubscription_def body1 l1 d1)
  define config where "config = blankNode\<lparr> type := Shadowsocks, nodeName := ''Test'',
      hostname := ''1.2.3.4'', port := ''8388'', method' := ''aes-256-gcm'', password := ''pwd'',
      udp_relay := None, obfs := None, obfs_host := None \<rparr>"
  have c: "asShadowsocksNodeConfig sip002Node = Some config"
    by (simp add: asShadowsocksNodeConfig_def sip002Node_def getProp_def config_def)
  have e: "getShadowsocksNodes lib [config] None = sip002Reencoded"
    by (simp add: getShadowsocksNodes_def shadowsocksUri_def truthyStrings_def config_def
          blankNode_def truthyStr_def toUrlSafeBase64_def enc encName encGroup query
          sip002Reencoded_def)
  have p: "getProp sip002Node ''method'' = JStr ''aes-256-gcm''"
    "getProp sip002Node ''password'' = JStr ''pwd''"
    "getProp sip002Node ''hostname'' = JStr ''1.2.3.4''"
    "getProp sip002Node ''port'' = JStr ''8388''"
    "getProp sip002Node ''nodeName'' = JStr ''Test''"
    by (simp_all add: sip002Node_def getProp_def)
  from s0 s1 c e p show ?thesis by blast
qed

theorem sip002_round_trip_witness:
  "urlSafeEncode exampleLib ''aes-256-gcm:pwd'' = ''YWVzLTI1Ni1nY206cHdk''
   \<and> urlSafeValidate exampleLib ''YWVzLTI1Ni1nY206cHdk''
   \<and> urlSafeDecode exampleLib ''YWVzLTI1Ni1nY206cHdk'' = ''aes-256-gcm:pwd''
   \<and> urlParse exampleLib sip002Uri =
        \<lparr> url_auth = Some ''YWVzLTI1Ni1nY206cHdk'', url_hostname = Some ''1.2.3.4'',
          url_port = Some ''8388'', url_hash = Some ''#Test'', url_query = [] \<rparr>
   \<and> fromBase64 exampleLib ''c3M6Ly9ZV1Z6TFRJMU5pMW5ZMjA2Y0hka0AxLjIuMy40OjgzODgjVGVzdA=='' = sip002Uri
   \<and> fromBase64 exampleLib ''c3M6Ly9ZV1Z6TFRJMU5pMW5ZMjA2Y0hka0AxLjIuMy40OjgzODgvP2dyb3VwPVN1cmdpbyNUZXN0''
        = sip002Reencoded
   \<and> (\<exists>node config node'.
           getShadowsocksSubscription exampleLib None
             ''c3M6Ly9ZV1Z6TFRJMU5pMW5ZMjA2Y0hka0AxLjIuMy40OjgzODgjVGVzdA=='' = Inr [node]
         \<and> asShadowsocksNodeConfig node = Some config
         \<and> getShadowsocksNodes exampleLib [config] None = sip002Reencoded
         \<and> getShadowsocksSubscription exampleLib None
             ''c3M6Ly9ZV1Z6TFRJMU5pMW5ZMjA2Y0hka0AxLjIuMy40OjgzODgvP2dyb3VwPVN1cmdpbyNUZXN0'' = Inr [node']
         \<and> getProp node' ''method'' = JStr ''aes-256-gcm''
         \<and> getProp node' ''password'' = JStr ''pwd''
         \<and> getProp node' ''hostname'' = JStr ''1.2.3.4''
         \<and> getProp node' ''port'' = JStr ''8388''
         \<and> getProp node' ''nodeName'' = JStr ''Test'')"
proof -
  have enc: "urlSafeEncode exampleLib ''aes-256-gcm:pwd'' = ''YWVzLTI1Ni1nY206cHdk''"
    by code_simp
  have valid: "urlSafeValidate exampleLib ''YWVzLTI1Ni1nY206cHdk''"
    by code_simp
  have dec: "urlSafeDecode exampleLib ''YWVzLTI1Ni1nY206cHdk'' = ''aes-256-gcm:pwd''"
    by code_simp
  have encName: "encodeURIComponent exampleLib ''Test'' = ''Test''"
    by code_simp
  have encGroup: "encodeURIComponent exampleLib ''Surgio'' = ''Surgio''"
    by code_simp
  have decName: "decodeURIComponent exampleLib ''Test'' = Some ''Test''"
    by code_simp
  have query: "queryStringify exampleLib False [(''group'', ''Surgio'')] = ''group=Surgio''"
    by code_simp
  have parse0: "urlParse exampleLib sip002Uri =
        \<lparr> url_auth = Some ''YWVzLTI1Ni1nY206cHdk'', url_hostname = Some ''1.2.3.4'',
          url_port = Some ''8388'', url_hash = Some ''#Test'', url_query = [] \<rparr>"
    by code_simp
  have parse1: "urlParse exampleLib sip002Reencoded =
        \<lparr> url_auth = Some ''YWVzLTI1Ni1nY206cHdk'', url_hostname = Some ''1.2.3.4'',
          url_port = Some ''8388'', url_hash = Some ''#Test'',
          url_query = [(''group'', JStr ''Surgio'')] \<rparr>"
    by code_simp
  have body0: "fromBase64 exampleLib ''c3M6Ly9ZV1Z6TFRJMU5pMW5ZMjA2Y0hka0AxLjIuMy40OjgzODgjVGVzdA=='' = sip002Uri"
    by code_simp
  have body1: "fromBase64 exampleLib ''c3M6Ly9ZV1Z6TFRJMU5pMW5ZMjA2Y0hka0AxLjIuMy40OjgzODgvP2dyb3VwPVN1cmdpbyNUZXN0''
        = sip002Reencoded"
    by code_simp
  from sip002_round_trip [OF enc valid dec encName encGroup decName query parse0 parse1 body0 body1]
  have "\<exists>node config node'.
           getShadowsocksSubscription exampleLib None
             ''c3M6Ly9ZV1Z6TFRJMU5pMW5ZMjA2Y0hka0AxLjIuMy40OjgzODgjVGVzdA=='' = Inr [node]
         \<and> asShadowsocksNodeConfig node = Some config
         \<and> getShadowsocksNodes exampleLib [config] None = sip002Reencoded
         \<and> getShadowsocksSubscription exampleLib None
             ''c3M6Ly9ZV1Z6TFRJMU5pMW5ZMjA2Y0hka0AxLjIuMy40OjgzODgvP2dyb3VwPVN1cmdpbyNUZXN0'' = Inr [node']
         \<and> getProp node' ''method'' = JStr ''aes-256-gcm''
         \<and> getProp node' ''password'' = JStr ''pwd''
         \<and> getProp node' ''hostname'' = JStr ''1.2.3.4''
         \<and> getProp node' ''port'' = JStr ''8388''
         \<and> getProp node' ''nodeName'' = JStr ''Test''"
    by blast
  with enc valid dec parse0 body0 body1 show ?thesis by blast
qed

end
